theory Spec2Isabelle
  imports Main "HOL-Library.Char_ord" "HOL-Library.List_Lexorder"
begin

section \<open>The metadata protocol server (lib/metadata/ec2\_metadata\_service.go)\<close>

subsection \<open>Data model\<close>

text \<open>
  Instants are nanoseconds since the Unix epoch and durations are nanoseconds, as Go's
  \<open>time.Time\<close> and \<open>time.Duration\<close> count them; both are unbounded integers here.
\<close>

type_synonym instant = int
type_synonym duration = int

text \<open>
  \<open>config.AwsConfig\<close>: the fields of a resolved role configuration that the service reads.
\<close>

record AwsConfig =
  SourceProfile :: string
  RoleArn :: string
  MfaSerial :: string
  ExternalID :: string
  SessionDuration :: duration

text \<open>\<open>credlib.AwsIdentity\<close>: the caller's identity; the service reads the user name.\<close>

record AwsIdentity =
  UserName :: string

text \<open>\<open>session.Session\<close>: the SDK session, identified by the profile it was built for.\<close>

record Session =
  Profile :: string

text \<open>
  \<open>credlib.SessionTokenProvider\<close> as the two handlers configure it: \<open>Cache\<close> is the path of
  the \<open>cache.FileCredentialCache\<close>, \<open>None\<close> when no cache is attached.
\<close>

record SessionTokenProvider =
  Duration :: duration
  SerialNumber :: string
  TokenCode :: string
  Cache :: "string option"

text \<open>
  \<open>credentials.Credentials\<close>: the provider, the \<open>forceRefresh\<close> flag that \<open>Expire\<close> sets and a
  successful \<open>Get\<close> clears, and the expiration of the credentials it holds.
\<close>

record Credentials =
  provider :: SessionTokenProvider
  forceRefresh :: bool
  expiration :: instant

text \<open>
  What \<open>cred.Get\<close> can fail with: the type switch of \<open>profileHandler\<close> tells
  \<open>*credlib.ErrMfaRequired\<close> from an \<open>awserr.Error\<close> (code and message) from any other
  error (its text).
\<close>

datatype cred_error =
    ErrMfaRequired
  | AwsError string string
  | OtherError string

text \<open>
  The requests for credentials and identities, in the order they are made: the identity
  lookup of \<open>updateSession\<close>, a \<open>Retrieve\<close> of the session-token provider (which answers
  from its cache file when it has one with valid credentials, and from the identity
  provider otherwise), and the \<open>Get\<close> of the assume-role provider with the role ARN, the
  external id, the session name and the duration it was configured with.
\<close>

datatype provider_call =
    CallGetCallerIdentity string
  | CallRetrieve SessionTokenProvider
  | CallAssumeRole string string string duration

text \<open>
  The package variables \<open>profile\<close>, \<open>role\<close>, \<open>s\<close> (here \<open>sess\<close>), \<open>cred\<close>, \<open>usr\<close> and
  \<open>cacheDir\<close>, together with what the handlers touch outside the process: the files on
  disk (\<open>files\<close>), the files whose removal the operating system refuses (\<open>undeletable\<close>)
  and the trace of identity-provider calls (\<open>calls\<close>).
\<close>

record server =
  profile :: string
  role :: "AwsConfig option"
  sess :: "Session option"
  cred :: "Credentials option"
  usr :: "AwsIdentity option"
  cacheDir :: string
  files :: "string set"
  undeletable :: "string set"
  calls :: "provider_call list"

text \<open>What \<open>cfg.ResolveConfig\<close> returns: an error, or a (possibly nil) configuration.\<close>

datatype resolve_result =
    ResolveError
  | Resolved "AwsConfig option"

text \<open>\<open>credentials.Value\<close>, as \<open>assumeRole\<close> reads it.\<close>

record credValue =
  AccessKeyID :: string
  SecretAccessKey :: string
  SessionToken :: string

text \<open>The JSON object of a credential fetch, before it is marshalled.\<close>

record ec2MetadataOutput =
  Code :: string
  LastUpdated :: string
  Type :: string
  AccessKeyId :: string
  SecretAccessKey' :: string
  Token :: string
  Expiration :: string

text \<open>
  The collaborators outside this file: the config resolver; the SDK's session
  constructor (whether it succeeds for a profile); the identity lookup; the session-token
  provider's \<open>Retrieve\<close> (an error, or the expiration of the credentials obtained); the
  assume-role provider's \<open>Get\<close> for a role ARN (an error text, or the credential value
  together with the expiration the identity provider gave it); \<open>filepath.Join\<close>;
  \<open>Time.Local().String()\<close>, which depends on the machine's time zone; \<open>json.Marshal\<close> of
  the output object; the clock, as the readings \<open>time.Now()\<close> returns in the order they
  are taken while one request is handled; and the two duration constants of \<open>credlib\<close>.
\<close>

record env =
  ResolveConfig :: "string \<Rightarrow> resolve_result"
  NewSessionWithOptions :: "string \<Rightarrow> bool"
  GetCallerIdentity :: "string \<Rightarrow> AwsIdentity option"
  Retrieve :: "SessionTokenProvider \<Rightarrow> cred_error + instant"
  AssumeRoleGet :: "string \<Rightarrow> string + credValue \<times> instant"
  Join :: "string \<Rightarrow> string \<Rightarrow> string"
  LocalString :: "instant \<Rightarrow> string"
  Marshal :: "ec2MetadataOutput \<Rightarrow> string"
  Now :: "nat \<Rightarrow> instant"
  AssumeRoleDefaultDuration :: duration
  AssumeRoleMinDuration :: duration

text \<open>
  An \<open>io.Reader\<close> as one \<open>Read\<close> call sees it: the bytes it has to deliver and the error it
  reports with them. \<open>Read\<close> into a buffer of \<open>k\<close> bytes copies at most \<open>k\<close> of them.
\<close>

datatype ioerr = EOF | IOFailure

datatype reader = Reader string "ioerr option"

fun Read :: "reader \<Rightarrow> nat \<Rightarrow> string \<times> ioerr option" where
  "Read (Reader bs e) k = (take k bs, e)"

text \<open>An \<open>http.Request\<close>: method, URL path and body (\<open>None\<close> is a nil body).\<close>

record request =
  Method :: string
  Path :: string
  Body :: "reader option"

text \<open>What \<open>writeResponse\<close> puts on the wire.\<close>

record response =
  status :: int
  content_type :: string
  content_length :: nat
  body :: string

text \<open>
  A handler either writes a response or panics (a nil dereference, \<open>session.Must\<close>); the
  HTTP server recovers the panic and the connection gets no response from the handler.
\<close>

datatype outcome = Responded response | Panicked

subsection \<open>Responses\<close>

text \<open>
  \<open>ctype\<close> is the \<open>Content-Type\<close> header the handler has set before the call, empty when it
  has set none.
\<close>

definition writeResponse :: "string \<Rightarrow> string \<Rightarrow> int \<Rightarrow> response" where
  "writeResponse ctype b code =
     \<lparr> status = (if code < 100 then 200 else code),
       content_type = (if length ctype < 1 then ''text/plain'' else ctype),
       content_length = length b,
       body = b \<rparr>"

abbreviation StatusOK :: int where "StatusOK \<equiv> 200"
abbreviation StatusUnauthorized :: int where "StatusUnauthorized \<equiv> 401"
abbreviation StatusInternalServerError :: int where "StatusInternalServerError \<equiv> 500"
abbreviation MethodPost :: string where "MethodPost \<equiv> ''POST''"

subsection \<open>Cache file and refresh\<close>

definition cacheFile :: "env \<Rightarrow> server \<Rightarrow> string \<Rightarrow> string" where
  "cacheFile e st p =
     (if length (cacheDir st) > 0 \<and> length p > 0
      then Join e (cacheDir st) (''.aws_session_token_'' @ p)
      else [])"

text \<open>\<open>Credentials.Expire\<close>: the next \<open>Get\<close> must go back to the provider.\<close>

definition Expire :: "Credentials \<Rightarrow> Credentials" where
  "Expire c = c\<lparr>forceRefresh := True\<rparr>"

text \<open>
  \<open>os.Remove\<close>: the file is gone afterwards unless it did not exist or the system refuses;
  the handler only logs the error, so the model returns the new state alone.
\<close>

definition os_Remove :: "server \<Rightarrow> string \<Rightarrow> server" where
  "os_Remove st f =
     (if f \<in> files st \<and> f \<notin> undeletable st then st\<lparr>files := files st - {f}\<rparr> else st)"

definition refreshHandler :: "env \<Rightarrow> request \<Rightarrow> server \<Rightarrow> outcome \<times> server" where
  "refreshHandler e r st =
     (let st' =
        (case (Method r = MethodPost, cred st) of
           (True, Some c) \<Rightarrow>
             (let st1 = st\<lparr>cred := Some (Expire c)\<rparr> in
              case role st1 of
                Some ro \<Rightarrow>
                  (let cf = cacheFile e st1 (SourceProfile ro) in
                   if length cf > 0 then os_Remove st1 cf else st1)
              | None \<Rightarrow> st1)
         | _ \<Rightarrow> st)
      in (Responded (writeResponse [] ''success'' StatusOK), st'))"

subsection \<open>Session credentials\<close>

text \<open>
  \<open>credlib.NewSessionCredentials(s, options)\<close>: the provider as the handler's option
  function has configured it, in a \<open>Credentials\<close> object that holds nothing yet, so that
  its first \<open>Get\<close> goes to the provider. The SDK builds its client from the session \<open>s\<close> and
  dereferences it: a nil session panics.
\<close>

definition NewSessionCredentials :: "Session option \<Rightarrow> SessionTokenProvider \<Rightarrow> Credentials option"
  where
  "NewSessionCredentials sn pv =
     (case sn of
        None \<Rightarrow> None
      | Some _ \<Rightarrow> Some \<lparr> provider = pv, forceRefresh = True, expiration = 0 \<rparr>)"

text \<open>
  \<open>Credentials.Get\<close> on the package's \<open>cred\<close>: when a refresh is due it calls the provider's
  \<open>Retrieve\<close>, keeps the result and clears \<open>forceRefresh\<close>; an error leaves the object as it
  was. Both handlers call it on a \<open>Credentials\<close> object they have just created, whose
  \<open>forceRefresh\<close> is set, so the provider's own expiry test is never the deciding one.
  Modelled from the spec: a successful session establishment persists the session
  credential to the cache file, if a cache is attached (the provider's code is in
  lib/credentials).
\<close>

definition Get :: "env \<Rightarrow> server \<Rightarrow> cred_error option \<times> server" where
  "Get e st =
     (case cred st of
        None \<Rightarrow> (None, st)
      | Some c \<Rightarrow>
          if forceRefresh c then
            (let st1 = st\<lparr>calls := calls st @ [CallRetrieve (provider c)]\<rparr> in
             case Retrieve e (provider c) of
               Inl err \<Rightarrow> (Some err, st1)
             | Inr ex \<Rightarrow>
                 (None,
                  st1\<lparr>cred := Some (c\<lparr>forceRefresh := False, expiration := ex\<rparr>),
                      files := (case Cache (provider c) of
                                  None \<Rightarrow> files st1
                                | Some f \<Rightarrow> insert f (files st1))\<rparr>))
          else (None, st))"

text \<open>\<open>Credentials.ExpiresAt\<close> of the package's \<open>cred\<close>.\<close>

definition ExpiresAt :: "server \<Rightarrow> instant" where
  "ExpiresAt st = (case cred st of None \<Rightarrow> 0 | Some c \<Rightarrow> expiration c)"

subsection \<open>Reading the request body\<close>

record handlerError =
  msg :: string
  code :: int

definition newHandlerError :: "string \<Rightarrow> int \<Rightarrow> handlerError" where
  "newHandlerError m c = \<lparr> msg = m, code = c \<rparr>"

definition getMfa :: "reader option \<Rightarrow> handlerError + string" where
  "getMfa r =
     (case r of
        None \<Rightarrow> Inl (newHandlerError ''nil reader'' StatusInternalServerError)
      | Some rd \<Rightarrow>
          (let mfaLen = 6;
               (b, err) = Read rd 64;
               n = length b
           in if err \<noteq> None \<and> err \<noteq> Some EOF
              then Inl (newHandlerError ''Error reading request data'' StatusInternalServerError)
              else if n < mfaLen
              then Inl (newHandlerError ''Invalid MFA Code'' StatusUnauthorized)
              else Inr (take mfaLen b)))"

text \<open>
  \<open>getProfileConfig\<close> stores the body in the package's \<open>profile\<close> before it asks the
  resolver, and returns what the resolver gave.
\<close>

definition getProfileConfig ::
  "env \<Rightarrow> reader option \<Rightarrow> server \<Rightarrow> (handlerError + AwsConfig option) \<times> server" where
  "getProfileConfig e r st =
     (case r of
        None \<Rightarrow> (Inl (newHandlerError ''nil reader'' StatusInternalServerError), st)
      | Some rd \<Rightarrow>
          (let (b, err) = Read rd 4096 in
           if err \<noteq> None \<and> err \<noteq> Some EOF
           then (Inl (newHandlerError ''Error reading request data'' StatusInternalServerError), st)
           else
             (let st1 = st\<lparr>profile := b\<rparr> in
              case ResolveConfig e (profile st1) of
                ResolveError \<Rightarrow>
                  (Inl (newHandlerError ''Error resolving profile config''
                          StatusInternalServerError), st1)
              | Resolved p \<Rightarrow> (Inr p, st1))))"

subsection \<open>Profile selection\<close>

definition sendProfile :: "server \<Rightarrow> outcome \<times> server" where
  "sendProfile st = (Responded (writeResponse [] (profile st) StatusOK), st)"

text \<open>
  \<open>updateSession\<close>: a new SDK session for the profile (\<open>session.Must\<close> panics when the SDK
  cannot build one), and the caller's identity if it is not known yet.
\<close>

datatype update_result = UpdateOk | UpdateError | UpdatePanic

definition updateSession :: "env \<Rightarrow> string \<Rightarrow> server \<Rightarrow> update_result \<times> server" where
  "updateSession e p st =
     (if \<not> NewSessionWithOptions e p then (UpdatePanic, st)
      else
        (let st1 = st\<lparr>sess := Some \<lparr> Profile = p \<rparr>\<rparr> in
         if usr st1 = None then
           (let st2 = st1\<lparr>calls := calls st1 @ [CallGetCallerIdentity p]\<rparr> in
            case GetCallerIdentity e p of
              None \<Rightarrow> (UpdateError, st2)
            | Some u \<Rightarrow> (UpdateOk, st2\<lparr>usr := Some u\<rparr>))
         else (UpdateOk, st1)))"

text \<open>\<open>strings.HasPrefix\<close>.\<close>

definition HasPrefix :: "string \<Rightarrow> string \<Rightarrow> bool" where
  "HasPrefix str pre = (length str \<ge> length pre \<and> take (length pre) str = pre)"

definition profileHandler :: "env \<Rightarrow> request \<Rightarrow> server \<Rightarrow> outcome \<times> server" where
  "profileHandler e r st =
     (if Method r = MethodPost then
        (case getProfileConfig e (Body r) st of
           (Inl hErr, st1) \<Rightarrow> (Responded (writeResponse [] (msg hErr) (code hErr)), st1)
         | (Inr None, st1) \<Rightarrow> (Panicked, st1)
         | (Inr (Some p), st1) \<Rightarrow>
             (case (if (case role st1 of
                          None \<Rightarrow> True
                        | Some ro \<Rightarrow> SourceProfile p \<noteq> SourceProfile ro)
                    then updateSession e (SourceProfile p) st1
                    else (UpdateOk, st1)) of
                (UpdatePanic, st2) \<Rightarrow> (Panicked, st2)
              | (_, st2) \<Rightarrow>
                  (let st3 = st2\<lparr>role := Some p\<rparr>;
                       cf = cacheFile e st3 (SourceProfile p);
                       pv = \<lparr> Duration = SessionDuration p,
                              SerialNumber = MfaSerial p,
                              TokenCode = [],
                              Cache = (if length cf > 0 then Some cf else None) \<rparr>
                   in case NewSessionCredentials (sess st3) pv of
                        None \<Rightarrow> (Panicked, st3)
                      | Some c \<Rightarrow>
                          (case Get e (st3\<lparr>cred := Some c\<rparr>) of
                             (Some err, st4) \<Rightarrow>
                               (case err of
                                  ErrMfaRequired \<Rightarrow>
                                    (Responded (writeResponse [] ''MFA code required''
                                                  StatusUnauthorized), st4)
                                | AwsError c m \<Rightarrow>
                                    if c = ''AccessDenied''
                                       \<and> HasPrefix m ''MultiFactorAuthentication failed''
                                    then (Responded (writeResponse [] ''MFA code required''
                                                       StatusUnauthorized), st4)
                                    else (Responded (writeResponse []
                                                       ''Error getting session credentials''
                                                       StatusInternalServerError), st4)
                                | OtherError _ \<Rightarrow>
                                    (Responded (writeResponse []
                                                  ''Error getting session credentials''
                                                  StatusInternalServerError), st4))
                           | (None, st4) \<Rightarrow>
                               (Responded (writeResponse [] (LocalString e (ExpiresAt st4))
                                             StatusOK), st4)))))
      else sendProfile st)"

subsection \<open>MFA submission\<close>

definition mfaHandler :: "env \<Rightarrow> request \<Rightarrow> server \<Rightarrow> outcome \<times> server" where
  "mfaHandler e r st =
     (case getMfa (Body r) of
        Inl err \<Rightarrow> (Responded (writeResponse [] (msg err) (code err)), st)
      | Inr mfa \<Rightarrow>
          (case role st of
             None \<Rightarrow> (Panicked, st)
           | Some ro \<Rightarrow>
               (let cf = cacheFile e st (SourceProfile ro);
                    pv = \<lparr> Duration = SessionDuration ro,
                           SerialNumber = MfaSerial ro,
                           TokenCode = mfa,
                           Cache = (if length cf > 0 then Some cf else None) \<rparr>
                in case NewSessionCredentials (sess st) pv of
                     None \<Rightarrow> (Panicked, st)
                   | Some c \<Rightarrow>
                       (case Get e (st\<lparr>cred := Some c\<rparr>) of
                          (Some err, st1) \<Rightarrow>
                            (Responded (writeResponse []
                                          ''Error getting session credentials''
                                          StatusInternalServerError), st1)
                        | (None, st1) \<Rightarrow>
                            (Responded (writeResponse [] (LocalString e (ExpiresAt st1))
                                          StatusOK), st1)))))"

subsection \<open>Role credentials\<close>

text \<open>
  \<open>Time.UTC().Format(time.RFC3339)\<close>: the layout has no fraction of a second, so the text
  names the whole second the instant falls in. \<open>appendInt\<close> pads with zeros to a width;
  the date is the proleptic Gregorian one (days since the epoch to year, month, day).
\<close>

abbreviation Second :: duration where "Second \<equiv> 1000000000"

fun digits :: "nat \<Rightarrow> string" where
  "digits n =
     (if n < 10 then [''0123456789'' ! n]
      else digits (n div 10) @ [''0123456789'' ! (n mod 10)])"

definition appendInt :: "int \<Rightarrow> nat \<Rightarrow> string" where
  "appendInt x width =
     (let ds = digits (nat \<bar>x\<bar>) in
      (if x < 0 then ''-'' else []) @ replicate (width - length ds) (CHR ''0'') @ ds)"

definition civil :: "int \<Rightarrow> int \<times> int \<times> int" where
  "civil days =
     (let z = days + 719468;
          era = z div 146097;
          doe = z - era * 146097;
          yoe = (doe - doe div 1460 + doe div 36524 - doe div 146096) div 365;
          y = yoe + era * 400;
          doy = doe - (365 * yoe + yoe div 4 - yoe div 100);
          mp = (5 * doy + 2) div 153;
          d = doy - (153 * mp + 2) div 5 + 1;
          m = (if mp < 10 then mp + 3 else mp - 9)
      in ((if m \<le> 2 then y + 1 else y), m, d))"

definition unixSeconds :: "instant \<Rightarrow> int" where
  "unixSeconds t = t div Second"

definition Format_RFC3339 :: "instant \<Rightarrow> string" where
  "Format_RFC3339 t =
     (let secs = unixSeconds t;
          (y, m, d) = civil (secs div 86400);
          r = secs mod 86400
      in appendInt y 4 @ ''-'' @ appendInt m 2 @ ''-'' @ appendInt d 2 @ ''T''
         @ appendInt (r div 3600) 2 @ '':'' @ appendInt (r mod 3600 div 60) 2 @ '':''
         @ appendInt (r mod 60) 2 @ ''Z'')"

text \<open>
  \<open>assumeRole\<close>: the nil dereferences come in the order the source evaluates them
  (\<open>role.RoleArn\<close> for the log line, \<open>s.Copy\<close>, \<open>usr.UserName\<close> in the option function).
  \<open>v\<close> is the credential value \<open>ar.Get\<close> returned, \<open>ex\<close> the expiration the identity provider
  gave these credentials, which the source never reads. The clock is read twice.
  \<open>json.Marshal\<close> of an object of seven strings has no error to return.
\<close>

datatype assume_result = AssumePanic | AssumeError string | AssumeOk string

definition assumeRoleOutput :: "env \<Rightarrow> credValue \<Rightarrow> ec2MetadataOutput" where
  "assumeRoleOutput e v =
     \<lparr> Code = ''Success'',
       LastUpdated = Format_RFC3339 (Now e 0),
       Type = ''AWS-HMAC'',
       AccessKeyId = AccessKeyID v,
       SecretAccessKey' = SecretAccessKey v,
       Token = SessionToken v,
       Expiration = Format_RFC3339 (Now e 1 + AssumeRoleMinDuration e + 1 * Second) \<rparr>"

definition assumeRole :: "env \<Rightarrow> server \<Rightarrow> assume_result \<times> server" where
  "assumeRole e st =
     (case role st of
        None \<Rightarrow> (AssumePanic, st)
      | Some ro \<Rightarrow>
          (case sess st of
             None \<Rightarrow> (AssumePanic, st)
           | Some _ \<Rightarrow>
               (case usr st of
                  None \<Rightarrow> (AssumePanic, st)
                | Some u \<Rightarrow>
                    (let st1 = st\<lparr>calls := calls st @
                                 [CallAssumeRole (RoleArn ro) (ExternalID ro) (UserName u)
                                    (AssumeRoleDefaultDuration e)]\<rparr>
                     in case AssumeRoleGet e (RoleArn ro) of
                          Inl err \<Rightarrow> (AssumeError err, st1)
                        | Inr (v, ex) \<Rightarrow> (AssumeOk (Marshal e (assumeRoleOutput e v)), st1)))))"

text \<open>\<open>strings.Split\<close> with a one-byte separator.\<close>

fun Split :: "string \<Rightarrow> char \<Rightarrow> string list" where
  "Split [] sep = [[]]"
| "Split (c # cs) sep =
     (if c = sep then [] # Split cs sep
      else (case Split cs sep of
              [] \<Rightarrow> [[c]]
            | w # ws \<Rightarrow> (c # w) # ws))"

definition credHandler :: "env \<Rightarrow> request \<Rightarrow> server \<Rightarrow> outcome \<times> server" where
  "credHandler e r st =
     (let p = tl (Split (Path r) (CHR ''/'')) in
      if p = [] then (Panicked, st)
      else if length (last p) < 1 then sendProfile st
      else
        (case assumeRole e st of
           (AssumePanic, st1) \<Rightarrow> (Panicked, st1)
         | (AssumeError err, st1) \<Rightarrow>
             (Responded (writeResponse [] ''Error getting role credentials''
                           StatusInternalServerError), st1)
         | (AssumeOk b, st1) \<Rightarrow>
             (Responded (writeResponse ''application/json'' b StatusOK), st1)))"

subsection \<open>The session-token provider and its cache\<close>

text \<open>
  Modelled from the spec: the \<open>Retrieve\<close> of the session-token provider (lib/credentials
  and lib/cache are missing). In the spec the session credential is cached to disk keyed
  by the name of the source profile, the cache file holds the serialized credential with
  its real expiration, and establishing a session may be satisfied from a valid on-disk
  cache without a network call. So a provider whose cache file exists and holds a
  credential that has not expired returns that credential, and every other provider, one
  without a cache among them, sends a session-token request to the identity provider.
  \<open>fs\<close> is the set of the files that exist, \<open>expiry f\<close> the expiration of the credential
  stored in the file \<open>f\<close>, \<open>now\<close> the time of the call, and \<open>sts pv\<close> the outcome of the
  session-token request that the provider \<open>pv\<close> sends.
\<close>

definition cacheHit ::
  "string set \<Rightarrow> (string \<Rightarrow> instant) \<Rightarrow> instant \<Rightarrow> SessionTokenProvider \<Rightarrow> bool" where
  "cacheHit fs expiry now pv =
     (case Cache pv of
        None \<Rightarrow> False
      | Some f \<Rightarrow> f \<in> fs \<and> now < expiry f)"

definition cachingRetrieve ::
  "string set \<Rightarrow> (string \<Rightarrow> instant) \<Rightarrow> instant \<Rightarrow> (SessionTokenProvider \<Rightarrow> cred_error + instant)
     \<Rightarrow> SessionTokenProvider \<Rightarrow> cred_error + instant" where
  "cachingRetrieve fs expiry now sts pv =
     (case Cache pv of
        None \<Rightarrow> sts pv
      | Some f \<Rightarrow> (if f \<in> fs \<and> now < expiry f then Inr (expiry f) else sts pv))"

section \<open>The role discovery engine (lib/util)\<close>

text \<open>
  The tests of \<open>Roles.Dedup\<close> and \<open>parsePolicy\<close> are among the sources
  (lib/util/role\_getter\_test.go); the two functions are not.
\<close>

subsection \<open>Role sets\<close>

text \<open>
  Modelled from the spec: \<open>Roles.Dedup\<close> (lib/util/role\_getter.go is missing). The
  post-processing is "deduplicate and sort ascending lexically"; strings compare byte by
  byte, as Go compares them. A nil slice and an empty one are both the empty list.
\<close>

type_synonym Roles = "string list"

definition Dedup :: "Roles \<Rightarrow> Roles" where
  "Dedup rs = sort (remdups rs)"

subsection \<open>Policy documents\<close>

text \<open>
  A decoded JSON value, as \<open>encoding/json\<close> hands it over in an \<open>interface{}\<close>. Numbers keep
  their text. An object keeps its members in order; a lookup takes the last member of
  that name, as decoding into a map does.
\<close>

datatype json =
    JNull
  | JBool bool
  | JNumber string
  | JString string
  | JArray "json list"
  | JObject "(string \<times> json) list"

definition getField :: "(string \<times> json) list \<Rightarrow> string \<Rightarrow> json option" where
  "getField ms k = map_of (rev ms) k"

text \<open>
  Modelled from the spec: the contribution rule of \<open>parsePolicy\<close> (lib/util/role\_getter.go
  is missing). The statements are the elements of the \<open>Statement\<close> array (absent or not
  an array: none); a statement that is not an object, or lacks a field, contributes
  nothing; one whose \<open>Effect\<close> is \<open>"Allow"\<close> and whose \<open>Action\<close> is the string
  \<open>"sts:AssumeRole"\<close> or an array with that string among its elements contributes its
  \<open>Resource\<close>: the string itself, or the strings of the array.
\<close>

definition statements :: "json \<Rightarrow> json list" where
  "statements doc =
     (case doc of
        JObject ms \<Rightarrow> (case getField ms ''Statement'' of Some (JArray xs) \<Rightarrow> xs | _ \<Rightarrow> [])
      | _ \<Rightarrow> [])"

definition isAssumeRole :: "json \<Rightarrow> bool" where
  "isAssumeRole a =
     (case a of
        JString x \<Rightarrow> x = ''sts:AssumeRole''
      | JArray xs \<Rightarrow> JString ''sts:AssumeRole'' \<in> set xs
      | _ \<Rightarrow> False)"

fun strings :: "json list \<Rightarrow> string list" where
  "strings [] = []"
| "strings (JString x # xs) = x # strings xs"
| "strings (_ # xs) = strings xs"

definition findRoles :: "json \<Rightarrow> string list" where
  "findRoles r =
     (case r of
        JString x \<Rightarrow> [x]
      | JArray xs \<Rightarrow> strings xs
      | _ \<Rightarrow> [])"

definition contribution :: "json \<Rightarrow> string list" where
  "contribution stmt =
     (case stmt of
        JObject ms \<Rightarrow>
          (if getField ms ''Effect'' = Some (JString ''Allow'') then
             (case getField ms ''Action'' of
                Some a \<Rightarrow>
                  (if isAssumeRole a then
                     (case getField ms ''Resource'' of Some r \<Rightarrow> findRoles r | None \<Rightarrow> [])
                   else [])
              | None \<Rightarrow> [])
           else [])
      | _ \<Rightarrow> [])"

text \<open>The loop over the statements, appending to the accumulator.\<close>

fun collect :: "string list \<Rightarrow> json list \<Rightarrow> string list" where
  "collect acc [] = acc"
| "collect acc (stmt # rest) = collect (acc @ contribution stmt) rest"

definition documentRoles :: "json \<Rightarrow> Roles" where
  "documentRoles doc = Dedup (collect [] (statements doc))"

subsection \<open>Decoding the document text\<close>

text \<open>
  The JSON grammar that \<open>json.Unmarshal\<close> checks before it decodes anything: tokens first,
  then a pushdown automaton over the tokens. A string is a list of bytes, as in Go. The
  tokeniser checks the escapes of a string literal (the two-character ones, and \<open>\u\<close>
  with four hexadecimal digits) and keeps its bytes; \<open>unquote\<close> then replaces the escapes,
  joins a pair of UTF-16 surrogates into one code point, and writes U+FFFD for a surrogate
  without its partner and for a byte that is not part of a valid UTF-8 sequence.
\<close>

datatype token =
    TLBrace | TRBrace | TLBrack | TRBrack | TColon | TComma
  | TString string | TNumber string | TWord string

definition isSpace :: "char \<Rightarrow> bool" where
  "isSpace c = (c = CHR '' '' \<or> c = CHR 0x09 \<or> c = CHR 0x0A \<or> c = CHR 0x0D)"

definition isDigit :: "char \<Rightarrow> bool" where
  "isDigit c = (CHR ''0'' \<le> c \<and> c \<le> CHR ''9'')"

definition isLetter :: "char \<Rightarrow> bool" where
  "isLetter c = (CHR ''a'' \<le> c \<and> c \<le> CHR ''z'')"

definition isNumberChar :: "char \<Rightarrow> bool" where
  "isNumberChar c =
     (isDigit c \<or> c = CHR ''-'' \<or> c = CHR ''+'' \<or> c = CHR ''.'' \<or> c = CHR ''e'' \<or> c = CHR ''E'')"

definition unescape :: "char \<Rightarrow> char option" where
  "unescape c =
     (if c = CHR 0x22 then Some (CHR 0x22)
      else if c = CHR 0x5C then Some (CHR 0x5C)
      else if c = CHR ''/'' then Some (CHR ''/'')
      else if c = CHR ''b'' then Some (CHR 0x08)
      else if c = CHR ''f'' then Some (CHR 0x0C)
      else if c = CHR ''n'' then Some (CHR 0x0A)
      else if c = CHR ''r'' then Some (CHR 0x0D)
      else if c = CHR ''t'' then Some (CHR 0x09)
      else None)"

definition isHex :: "char \<Rightarrow> bool" where
  "isHex c =
     (isDigit c \<or> (CHR ''a'' \<le> c \<and> c \<le> CHR ''f'') \<or> (CHR ''A'' \<le> c \<and> c \<le> CHR ''F''))"

definition hexDigit :: "char \<Rightarrow> int" where
  "hexDigit c =
     (if isDigit c then of_char c - 48
      else if CHR ''a'' \<le> c \<and> c \<le> CHR ''f'' then of_char c - 87
      else of_char c - 55)"

definition hex4 :: "string \<Rightarrow> int option" where
  "hex4 s =
     (case s of
        [a, b, c, d] \<Rightarrow>
          (if isHex a \<and> isHex b \<and> isHex c \<and> isHex d
           then Some (((hexDigit a * 16 + hexDigit b) * 16 + hexDigit c) * 16 + hexDigit d)
           else None)
      | _ \<Rightarrow> None)"

text \<open>\<open>getu4\<close>: the code unit of a \<open>\uXXXX\<close> escape at the head of the text, if there is one.\<close>

definition getu4 :: "string \<Rightarrow> int option" where
  "getu4 s =
     (case s of
        b # u # rest \<Rightarrow>
          (if b = CHR 0x5C \<and> u = CHR ''u'' then hex4 (take 4 rest) else None)
      | _ \<Rightarrow> None)"

definition RuneError :: int where
  "RuneError = 0xFFFD"

definition IsSurrogate :: "int \<Rightarrow> bool" where
  "IsSurrogate r = (0xD800 \<le> r \<and> r < 0xE000)"

text \<open>\<open>utf16.DecodeRune\<close>: the code point of a surrogate pair, U+FFFD if it is not one.\<close>

definition DecodeRune16 :: "int \<Rightarrow> int \<Rightarrow> int" where
  "DecodeRune16 r1 r2 =
     (if 0xD800 \<le> r1 \<and> r1 < 0xDC00 \<and> 0xDC00 \<le> r2 \<and> r2 < 0xE000
      then (r1 - 0xD800) * 1024 + (r2 - 0xDC00) + 0x10000
      else RuneError)"

text \<open>\<open>utf8.EncodeRune\<close>, for a code point that is not a surrogate and is below 0x110000.\<close>

definition EncodeRune :: "int \<Rightarrow> string" where
  "EncodeRune r =
     (if r < 0x80 then [char_of r]
      else if r < 0x800 then [char_of (0xC0 + r div 64), char_of (0x80 + r mod 64)]
      else if r < 0x10000 then
        [char_of (0xE0 + r div 4096), char_of (0x80 + (r div 64) mod 64),
         char_of (0x80 + r mod 64)]
      else
        [char_of (0xF0 + r div 262144), char_of (0x80 + (r div 4096) mod 64),
         char_of (0x80 + (r div 64) mod 64), char_of (0x80 + r mod 64)])"

definition isCont :: "char \<Rightarrow> bool" where
  "isCont c = (CHR 0x80 \<le> c \<and> c \<le> CHR 0xBF)"

text \<open>
  The second byte that \<open>utf8.DecodeRune\<close> accepts after a first byte of a sequence of three
  or four bytes: the ranges exclude the overlong forms, the surrogates and the code points
  above U+10FFFF.
\<close>

definition secondByte :: "char \<Rightarrow> char \<Rightarrow> bool" where
  "secondByte b0 b1 =
     (if b0 = CHR 0xE0 then CHR 0xA0 \<le> b1 \<and> b1 \<le> CHR 0xBF
      else if b0 = CHR 0xED then CHR 0x80 \<le> b1 \<and> b1 \<le> CHR 0x9F
      else if b0 = CHR 0xF0 then CHR 0x90 \<le> b1 \<and> b1 \<le> CHR 0xBF
      else if b0 = CHR 0xF4 then CHR 0x80 \<le> b1 \<and> b1 \<le> CHR 0x8F
      else isCont b1)"

text \<open>
  \<open>runeLen\<close>: the size that \<open>utf8.DecodeRune\<close> returns for a valid sequence of two to four
  bytes at the head of the text, and 0 where it returns \<open>RuneError\<close> with the size 1.
\<close>

definition runeLen :: "string \<Rightarrow> nat" where
  "runeLen s =
     (case s of
        [] \<Rightarrow> 0
      | b0 # r1 \<Rightarrow>
          (if CHR 0xC2 \<le> b0 \<and> b0 \<le> CHR 0xDF then
             (case r1 of
                b1 # r2 \<Rightarrow> (if isCont b1 then 2 else 0)
              | [] \<Rightarrow> 0)
           else if CHR 0xE0 \<le> b0 \<and> b0 \<le> CHR 0xEF then
             (case r1 of
                b1 # b2 # r3 \<Rightarrow> (if secondByte b0 b1 \<and> isCont b2 then 3 else 0)
              | _ \<Rightarrow> 0)
           else if CHR 0xF0 \<le> b0 \<and> b0 \<le> CHR 0xF4 then
             (case r1 of
                b1 # b2 # b3 # r4 \<Rightarrow>
                  (if secondByte b0 b1 \<and> isCont b2 \<and> isCont b3 then 4 else 0)
              | _ \<Rightarrow> 0)
           else 0))"

text \<open>
  \<open>unquote\<close>: the value of a string literal from the bytes between its quotes. The escapes
  have been checked by the tokeniser, so the branches that give up are not reached from
  there.
\<close>

function unquote :: "string \<Rightarrow> string" where
  "unquote [] = []"
| "unquote (c # cs) =
     (if c = CHR 0x5C then
        (case cs of
           [] \<Rightarrow> []
         | e # rest \<Rightarrow>
             (if e = CHR ''u'' then
                (case hex4 (take 4 rest) of
                   None \<Rightarrow> []
                 | Some r \<Rightarrow>
                     (if IsSurrogate r then
                        (case getu4 (drop 4 rest) of
                           None \<Rightarrow> EncodeRune RuneError @ unquote (drop 4 rest)
                         | Some r1 \<Rightarrow>
                             (if DecodeRune16 r r1 = RuneError
                              then EncodeRune RuneError @ unquote (drop 4 rest)
                              else EncodeRune (DecodeRune16 r r1) @ unquote (drop 10 rest)))
                      else EncodeRune r @ unquote (drop 4 rest)))
              else
                (case unescape e of
                   None \<Rightarrow> []
                 | Some u \<Rightarrow> u # unquote rest)))
      else if c < CHR 0x80 then c # unquote cs
      else if runeLen (c # cs) = 0 then EncodeRune RuneError @ unquote cs
      else take (runeLen (c # cs)) (c # cs) @ unquote (drop (runeLen (c # cs) - 1) cs))"
  by pat_completeness auto

termination unquote
  by (relation "measure length") auto

text \<open>
  A number: an optional minus, \<open>0\<close> or a digit sequence without a leading zero, an optional
  fraction, an optional exponent.
\<close>

definition validExponent :: "string \<Rightarrow> bool" where
  "validExponent s =
     (case s of
        [] \<Rightarrow> True
      | c # r \<Rightarrow>
          (c = CHR ''e'' \<or> c = CHR ''E'') \<and>
          (let r' = (case r of
                       [] \<Rightarrow> r
                     | g # r2 \<Rightarrow> if g = CHR ''+'' \<or> g = CHR ''-'' then r2 else r)
           in r' \<noteq> [] \<and> list_all isDigit r'))"

definition validFraction :: "string \<Rightarrow> bool" where
  "validFraction s =
     (case s of
        [] \<Rightarrow> True
      | c # r \<Rightarrow>
          if c = CHR ''.''
          then takeWhile isDigit r \<noteq> [] \<and> validExponent (dropWhile isDigit r)
          else validExponent s)"

definition validNumber :: "string \<Rightarrow> bool" where
  "validNumber s =
     (let s1 = (case s of [] \<Rightarrow> s | c # r \<Rightarrow> if c = CHR ''-'' then r else s);
          ip = takeWhile isDigit s1
      in (case ip of
            [] \<Rightarrow> False
          | d # ds \<Rightarrow> (if d = CHR ''0'' then ds = [] else True))
         \<and> validFraction (dropWhile isDigit s1))"

datatype lex_state =
    LIdle
  | LString string
  | LEscape string
  | LHex string nat
  | LNumber string
  | LWord string

text \<open>
  The tokens are cut by a machine that reads one byte at a time. A byte that ends a
  number or a word is then read as the idle machine reads it. Inside a string the machine
  keeps the bytes read so far, newest first, with their escapes; \<open>LHex acc k\<close> has read
  \<open>k\<close> of the four hexadecimal digits of a \<open>\u\<close> escape.
\<close>

definition idleStep :: "char \<Rightarrow> (token list \<times> lex_state) option" where
  "idleStep c =
     (if isSpace c then Some ([], LIdle)
      else if c = CHR ''{'' then Some ([TLBrace], LIdle)
      else if c = CHR ''}'' then Some ([TRBrace], LIdle)
      else if c = CHR ''['' then Some ([TLBrack], LIdle)
      else if c = CHR '']'' then Some ([TRBrack], LIdle)
      else if c = CHR '':'' then Some ([TColon], LIdle)
      else if c = CHR '','' then Some ([TComma], LIdle)
      else if c = CHR 0x22 then Some ([], LString [])
      else if isDigit c \<or> c = CHR ''-'' then Some ([], LNumber [c])
      else if isLetter c then Some ([], LWord [c])
      else None)"

definition emit :: "token \<Rightarrow> (token list \<times> lex_state) option \<Rightarrow> (token list \<times> lex_state) option"
  where
  "emit t r = (case r of None \<Rightarrow> None | Some (ts, st) \<Rightarrow> Some (t # ts, st))"

definition lexStep :: "lex_state \<Rightarrow> char \<Rightarrow> (token list \<times> lex_state) option" where
  "lexStep st c =
     (case st of
        LIdle \<Rightarrow> idleStep c
      | LString acc \<Rightarrow>
          (if c = CHR 0x22 then Some ([TString (unquote (rev acc))], LIdle)
           else if c = CHR 0x5C then Some ([], LEscape (c # acc))
           else if c < CHR 0x20 then None
           else Some ([], LString (c # acc)))
      | LEscape acc \<Rightarrow>
          (if c = CHR ''u'' then Some ([], LHex (c # acc) 0)
           else
             (case unescape c of
                None \<Rightarrow> None
              | Some u \<Rightarrow> Some ([], LString (c # acc))))
      | LHex acc k \<Rightarrow>
          (if isHex c
           then (if k = 3 then Some ([], LString (c # acc)) else Some ([], LHex (c # acc) (k + 1)))
           else None)
      | LNumber acc \<Rightarrow>
          (if isNumberChar c then Some ([], LNumber (c # acc))
           else if validNumber (rev acc) then emit (TNumber (rev acc)) (idleStep c)
           else None)
      | LWord acc \<Rightarrow>
          (if isLetter c then Some ([], LWord (c # acc))
           else emit (TWord (rev acc)) (idleStep c)))"

definition lexEnd :: "lex_state \<Rightarrow> token list option" where
  "lexEnd st =
     (case st of
        LIdle \<Rightarrow> Some []
      | LString acc \<Rightarrow> None
      | LEscape acc \<Rightarrow> None
      | LHex acc k \<Rightarrow> None
      | LNumber acc \<Rightarrow> (if validNumber (rev acc) then Some [TNumber (rev acc)] else None)
      | LWord acc \<Rightarrow> Some [TWord (rev acc)])"

fun lex :: "lex_state \<Rightarrow> string \<Rightarrow> token list option" where
  "lex st [] = lexEnd st"
| "lex st (c # cs) =
     (case lexStep st c of
        None \<Rightarrow> None
      | Some (ts, st') \<Rightarrow>
          (case lex st' cs of
             None \<Rightarrow> None
           | Some r \<Rightarrow> Some (ts @ r)))"

text \<open>
  The automaton: a stack of the open arrays and objects (members so far, newest first,
  and for an object the name that waits for its value), and what may come next.
\<close>

datatype frame =
    FArray "json list"
  | FObject "(string \<times> json) list" "string option"

datatype expect =
    EValue
  | EValueOrEnd
  | ENameOrEnd
  | EName
  | EColon
  | ECommaOrEnd
  | EDone json

type_synonym pstate = "frame list \<times> expect"

definition word :: "string \<Rightarrow> json option" where
  "word w =
     (if w = ''true'' then Some (JBool True)
      else if w = ''false'' then Some (JBool False)
      else if w = ''null'' then Some JNull
      else None)"

text \<open>A finished value goes into the innermost open container, or is the document.\<close>

definition deliver :: "json \<Rightarrow> frame list \<Rightarrow> pstate option" where
  "deliver v stack =
     (case stack of
        [] \<Rightarrow> Some ([], EDone v)
      | FArray xs # rest \<Rightarrow> Some (FArray (v # xs) # rest, ECommaOrEnd)
      | FObject ms (Some k) # rest \<Rightarrow> Some (FObject ((k, v) # ms) None # rest, ECommaOrEnd)
      | FObject ms None # rest \<Rightarrow> None)"

definition startValue :: "token \<Rightarrow> frame list \<Rightarrow> pstate option" where
  "startValue t stack =
     (case t of
        TLBrace \<Rightarrow> Some (FObject [] None # stack, ENameOrEnd)
      | TLBrack \<Rightarrow> Some (FArray [] # stack, EValueOrEnd)
      | TString x \<Rightarrow> deliver (JString x) stack
      | TNumber x \<Rightarrow> deliver (JNumber x) stack
      | TWord w \<Rightarrow> (case word w of None \<Rightarrow> None | Some v \<Rightarrow> deliver v stack)
      | _ \<Rightarrow> None)"

definition closeArray :: "frame list \<Rightarrow> pstate option" where
  "closeArray stack =
     (case stack of
        FArray xs # rest \<Rightarrow> deliver (JArray (rev xs)) rest
      | _ \<Rightarrow> None)"

definition closeObject :: "frame list \<Rightarrow> pstate option" where
  "closeObject stack =
     (case stack of
        FObject ms None # rest \<Rightarrow> deliver (JObject (rev ms)) rest
      | _ \<Rightarrow> None)"

definition name :: "token \<Rightarrow> frame list \<Rightarrow> pstate option" where
  "name t stack =
     (case (t, stack) of
        (TString k, FObject ms None # rest) \<Rightarrow> Some (FObject ms (Some k) # rest, EColon)
      | _ \<Rightarrow> None)"

definition step :: "pstate \<Rightarrow> token \<Rightarrow> pstate option" where
  "step ps t =
     (case ps of
        (stack, EValue) \<Rightarrow> startValue t stack
      | (stack, EValueOrEnd) \<Rightarrow> (if t = TRBrack then closeArray stack else startValue t stack)
      | (stack, ENameOrEnd) \<Rightarrow> (if t = TRBrace then closeObject stack else name t stack)
      | (stack, EName) \<Rightarrow> name t stack
      | (stack, EColon) \<Rightarrow> (if t = TColon then Some (stack, EValue) else None)
      | (stack, ECommaOrEnd) \<Rightarrow>
          (if t = TComma then
             (case stack of
                FArray xs # rest \<Rightarrow> Some (stack, EValue)
              | FObject ms k # rest \<Rightarrow> Some (stack, EName)
              | [] \<Rightarrow> None)
           else if t = TRBrack then closeArray stack
           else if t = TRBrace then closeObject stack
           else None)
      | (stack, EDone v) \<Rightarrow> None)"

fun parse :: "pstate \<Rightarrow> token list \<Rightarrow> json option" where
  "parse ps [] = (case ps of (stack, EDone v) \<Rightarrow> Some v | _ \<Rightarrow> None)"
| "parse ps (t # ts) = (case step ps t of None \<Rightarrow> None | Some ps' \<Rightarrow> parse ps' ts)"

definition decode :: "string \<Rightarrow> json option" where
  "decode s = (case lex LIdle s of None \<Rightarrow> None | Some ts \<Rightarrow> parse ([], EValue) ts)"

subsection \<open>parsePolicy\<close>

text \<open>
  Modelled from the spec: \<open>parsePolicy\<close> (lib/util/role\_getter.go is missing). As the spec
  has it, a missing document is an error, a document that does not parse as JSON is an
  error, and the empty document gives the empty role set and no error. The repository's
  test \<open>TestParsePolicy/string\<close> expects no error and no roles for the text \<open>string-only\<close>,
  which is not JSON: for that one text the model follows the test. Nothing in the sources
  tells which other texts, if any, share its treatment, so every other text that does not
  parse is the error of the spec.
\<close>

datatype policy_error = NilDocument | ParseError

definition parsePolicy :: "string option \<Rightarrow> policy_error + Roles" where
  "parsePolicy doc =
     (case doc of
        None \<Rightarrow> Inl NilDocument
      | Some text \<Rightarrow>
          (if text = [] then Inr []
           else
             (case decode text of
                Some j \<Rightarrow> Inr (documentRoles j)
              | None \<Rightarrow> (if text = ''string-only'' then Inr [] else Inl ParseError))))"

section \<open>Example values\<close>

text \<open>
  A small installation to run the handlers on: two profiles, \<open>dev\<close> and \<open>ops\<close>, that share
  the source profile \<open>base\<close>; \<open>ops\<close> asks for MFA. The identity provider wants a token code
  whenever a serial number is configured.
\<close>

definition exDev :: AwsConfig where
  "exDev = \<lparr> SourceProfile = ''base'', RoleArn = ''arn:aws:iam::1:role/dev'',
              MfaSerial = [], ExternalID = [], SessionDuration = 3600 * Second \<rparr>"

definition exOps :: AwsConfig where
  "exOps = \<lparr> SourceProfile = ''base'', RoleArn = ''arn:aws:iam::1:role/ops'',
              MfaSerial = ''arn:aws:iam::1:mfa/alice'', ExternalID = [],
              SessionDuration = 3600 * Second \<rparr>"

definition exEnv :: env where
  "exEnv =
     \<lparr> ResolveConfig = (\<lambda>n. if n = ''dev'' then Resolved (Some exDev)
                            else if n = ''ops'' then Resolved (Some exOps)
                            else ResolveError),
       NewSessionWithOptions = (\<lambda>p. True),
       GetCallerIdentity = (\<lambda>p. Some \<lparr> UserName = ''alice'' \<rparr>),
       Retrieve = (\<lambda>pv. if SerialNumber pv \<noteq> [] \<and> TokenCode pv = []
                        then Inl ErrMfaRequired
                        else Inr (1700003600 * Second)),
       AssumeRoleGet = (\<lambda>arn. Inr (\<lparr> AccessKeyID = ''AKIAEXAMPLE'',
                                       SecretAccessKey = ''secret'',
                                       SessionToken = ''token'' \<rparr>,
                                     1700003600 * Second)),
       Join = (\<lambda>dir f. dir @ ''/'' @ f),
       LocalString = Format_RFC3339,
       Marshal = (\<lambda>out. ''{\"Code\":\"'' @ Code out @ ''\",\"Expiration\":\"''
                           @ Expiration out @ ''\"}''),
       Now = (\<lambda>k. 1700000000 * Second + 500),
       AssumeRoleDefaultDuration = 3600 * Second,
       AssumeRoleMinDuration = 900 * Second \<rparr>"

definition exCred :: Credentials where
  "exCred =
     \<lparr> provider = \<lparr> Duration = 3600 * Second, SerialNumber = ''arn:aws:iam::1:mfa/alice'',
                     TokenCode = ''123456'', Cache = None \<rparr>,
       forceRefresh = False,
       expiration = 1700003600 * Second \<rparr>"

definition exServer :: server where
  "exServer =
     \<lparr> profile = ''ops'', role = Some exOps, sess = Some \<lparr> Profile = ''base'' \<rparr>,
       cred = Some exCred, usr = Some \<lparr> UserName = ''alice'' \<rparr>,
       cacheDir = ''/cache'', files = {''/cache/.aws_session_token_base''},
       undeletable = {}, calls = [] \<rparr>"

definition exRequest :: "string \<Rightarrow> string \<Rightarrow> string \<Rightarrow> request" where
  "exRequest m p b = \<lparr> Method = m, Path = p, Body = Some (Reader b (Some EOF)) \<rparr>"

text \<open>
  The example installation with a caching session-token provider: \<open>fs\<close> are the files that
  exist, every cache file holds a credential that expires an hour after the example's
  clock, and the identity provider answers as in \<open>exEnv\<close>.
\<close>

definition exCachingEnv :: "string set \<Rightarrow> env" where
  "exCachingEnv fs =
     exEnv\<lparr>Retrieve := cachingRetrieve fs (\<lambda>f. 1700003600 * Second)
                          (1700000000 * Second + 500) (Retrieve exEnv)\<rparr>"


section \<open>Properties of the metadata protocol server\<close>

subsection \<open>Refresh\<close>

lemma Expire_idem: "Expire (Expire c) = Expire c"
  by (simp add: Expire_def)

lemma refreshHandler_response:
  "fst (refreshHandler e r st) = Responded (writeResponse [] ''success'' StatusOK)"
  by (simp add: refreshHandler_def Let_def)

lemma refreshHandler_post_state:
  "Method r = MethodPost \<Longrightarrow> cred st = Some c \<Longrightarrow> role st = Some ro \<Longrightarrow>
   snd (refreshHandler e r st) =
     (let st1 = st\<lparr>cred := Some (Expire c)\<rparr>; cf = cacheFile e st (SourceProfile ro)
      in if length cf > 0 then os_Remove st1 cf else st1)"
  by (simp add: refreshHandler_def Let_def cacheFile_def)

lemma refreshHandler_post_cred:
  "Method r = MethodPost \<Longrightarrow> cred st = Some c \<Longrightarrow>
   cred (snd (refreshHandler e r st)) = Some (Expire c)"
  by (cases "role st") (simp_all add: refreshHandler_def Let_def os_Remove_def)

lemma refreshHandler_idem:
  "refreshHandler e r (snd (refreshHandler e r st)) = refreshHandler e r st"
proof (cases "Method r = MethodPost")
  case False
  then show ?thesis by (simp add: refreshHandler_def)
next
  case post: True
  show ?thesis
  proof (cases "cred st")
    case None
    with post show ?thesis by (simp add: refreshHandler_def)
  next
    case (Some c)
    show ?thesis
    proof (cases "role st")
      case None
      with post Some show ?thesis by (simp add: refreshHandler_def Let_def Expire_idem)
    next
      case (Some ro)
      with post \<open>cred st = Some c\<close> show ?thesis
        by (simp add: refreshHandler_def Let_def Expire_idem cacheFile_def os_Remove_def)
    qed
  qed
qed

text \<open>
  C7. Every request to \<open>/refresh\<close> is answered with status 200 and the body \<open>success\<close>,
  whatever the method and whether or not a credential is active. A POST with an active
  credential expires the credential in memory; with an active role configuration it
  removes the cache file of the role's source profile, if a cache file is configured and
  the operating system does not refuse the removal (the handler only logs that error).
  Handling the same request a second time changes nothing more and gives the same answer.
\<close>

theorem refreshHandler_post:
  "fst (refreshHandler e r st) = Responded (writeResponse [] ''success'' StatusOK)
   \<and> status (writeResponse [] ''success'' StatusOK) = 200
   \<and> body (writeResponse [] ''success'' StatusOK) = ''success''
   \<and> (Method r = MethodPost \<and> cred st = Some c \<longrightarrow>
        cred (snd (refreshHandler e r st)) = Some (Expire c) \<and> forceRefresh (Expire c))
   \<and> (Method r = MethodPost \<and> cred st = Some c \<and> role st = Some ro \<longrightarrow>
        files (snd (refreshHandler e r st)) =
          (if length (cacheFile e st (SourceProfile ro)) > 0
              \<and> cacheFile e st (SourceProfile ro) \<notin> undeletable st
           then files st - {cacheFile e st (SourceProfile ro)}
           else files st))
   \<and> refreshHandler e r (snd (refreshHandler e r st)) = refreshHandler e r st"
proof -
  have files: "files (snd (refreshHandler e r st)) =
          (if length (cacheFile e st (SourceProfile ro)) > 0
              \<and> cacheFile e st (SourceProfile ro) \<notin> undeletable st
           then files st - {cacheFile e st (SourceProfile ro)}
           else files st)"
    if "Method r = MethodPost" "cred st = Some c" "role st = Some ro"
    using refreshHandler_post_state [OF that] by (auto simp: Let_def os_Remove_def)
  show ?thesis
    using files refreshHandler_idem [of e r st] refreshHandler_post_cred [of r st c e]
    by (simp add: refreshHandler_response writeResponse_def Expire_def)
qed

theorem refreshHandler_post_witness:
  "fst (refreshHandler exEnv (exRequest ''POST'' ''/refresh'' []) exServer)
     = Responded \<lparr> status = 200, content_type = ''text/plain'', content_length = 7,
                    body = ''success'' \<rparr>
   \<and> cred (snd (refreshHandler exEnv (exRequest ''POST'' ''/refresh'' []) exServer))
       = Some (exCred\<lparr>forceRefresh := True\<rparr>)
   \<and> files exServer = {''/cache/.aws_session_token_base''}
   \<and> files (snd (refreshHandler exEnv (exRequest ''POST'' ''/refresh'' []) exServer)) = {}"
  using refreshHandler_post [of exEnv "exRequest ''POST'' ''/refresh'' []" exServer exCred exOps]
  by (simp add: exRequest_def exServer_def exEnv_def exOps_def cacheFile_def Expire_def
      writeResponse_def)

text \<open>
  C9. A request to \<open>/refresh\<close> whose method is not POST, or that arrives when no credential
  is active, leaves the whole state as it was (the package variables, the files on disk
  and the trace of provider calls) and is still answered with 200 and \<open>success\<close>.
\<close>

theorem refreshHandler_frame:
  "Method r \<noteq> MethodPost \<or> cred st = None \<Longrightarrow>
     refreshHandler e r st = (Responded (writeResponse [] ''success'' StatusOK), st)"
  by (auto simp: refreshHandler_def split: option.splits bool.splits)

theorem refreshHandler_frame_witness:
  "refreshHandler exEnv (exRequest ''GET'' ''/refresh'' []) exServer
     = (Responded \<lparr> status = 200, content_type = ''text/plain'', content_length = 7,
                     body = ''success'' \<rparr>, exServer)
   \<and> refreshHandler exEnv (exRequest ''POST'' ''/refresh'' []) (exServer\<lparr>cred := None\<rparr>)
     = (Responded \<lparr> status = 200, content_type = ''text/plain'', content_length = 7,
                     body = ''success'' \<rparr>, exServer\<lparr>cred := None\<rparr>)"
  using refreshHandler_frame [of "exRequest ''GET'' ''/refresh'' []" exServer exEnv]
    refreshHandler_frame [of "exRequest ''POST'' ''/refresh'' []" "exServer\<lparr>cred := None\<rparr>" exEnv]
  by (simp add: exRequest_def writeResponse_def)

subsection \<open>MFA submission\<close>

lemma getMfa_short:
  "length bs < 6 \<Longrightarrow> err \<noteq> Some IOFailure \<Longrightarrow>
   getMfa (Some (Reader bs err)) = Inl (newHandlerError ''Invalid MFA Code'' StatusUnauthorized)"
  by (cases err) (auto simp: getMfa_def Let_def intro: ioerr.exhaust)

lemma getMfa_failed:
  "getMfa (Some (Reader bs (Some IOFailure)))
     = Inl (newHandlerError ''Error reading request data'' StatusInternalServerError)"
  by (simp add: getMfa_def Let_def)

text \<open>
  C5, as amended. An MFA submission whose body is shorter than 6 bytes never reaches the
  identity provider: the handler returns with the state, and so the trace of provider
  calls, unchanged. The answer is the invalid-code condition, status 401 with the body
  \<open>Invalid MFA Code\<close>, unless reading the body failed with an error other than the end of
  the input: then the answer is status 500 with the body \<open>Error reading request data\<close>,
  whatever the number of bytes read.
\<close>

theorem mfaHandler_short_body:
  assumes "Body r = Some (Reader bs err)" and "length bs < 6"
  shows "mfaHandler e r st
      = (Responded (if err = Some IOFailure
                    then writeResponse [] ''Error reading request data''
                           StatusInternalServerError
                    else writeResponse [] ''Invalid MFA Code'' StatusUnauthorized), st)
    \<and> calls (snd (mfaHandler e r st)) = calls st
    \<and> status (writeResponse [] ''Invalid MFA Code'' StatusUnauthorized) = 401
    \<and> status (writeResponse [] ''Error reading request data'' StatusInternalServerError) = 500"
proof -
  have 1: "mfaHandler e r st
      = (Responded (if err = Some IOFailure
                    then writeResponse [] ''Error reading request data''
                           StatusInternalServerError
                    else writeResponse [] ''Invalid MFA Code'' StatusUnauthorized), st)"
  proof (cases "err = Some IOFailure")
    case True
    with assms(1) getMfa_failed [of bs] show ?thesis
      by (simp add: mfaHandler_def newHandlerError_def)
  next
    case False
    with assms(1) getMfa_short [OF assms(2) False] show ?thesis
      by (simp add: mfaHandler_def newHandlerError_def)
  qed
  have 2: "status (writeResponse [] ''Invalid MFA Code'' StatusUnauthorized) = 401"
    and 3: "status (writeResponse [] ''Error reading request data''
                      StatusInternalServerError) = 500"
    by (simp_all add: writeResponse_def)
  from 1 2 3 show ?thesis by simp
qed

theorem mfaHandler_short_body_witness:
  "mfaHandler exEnv (exRequest ''POST'' ''/mfa'' ''12345'') exServer
     = (Responded \<lparr> status = 401, content_type = ''text/plain'', content_length = 16,
                     body = ''Invalid MFA Code'' \<rparr>, exServer)"
  using mfaHandler_short_body [of "exRequest ''POST'' ''/mfa'' ''12345''" "''12345''" "Some EOF"
      exEnv exServer]
  by (simp add: exRequest_def writeResponse_def prod_eq_iff)

text \<open>
  C5, as stated, fails: a submission whose body is shorter than 6 bytes, three bytes
  here, and whose read ends with an error other than the end of the input is answered
  with status 500 and the body \<open>Error reading request data\<close>, not with the invalid-code
  condition. \<open>getMfa\<close> tests the error of the read before it tests the length.
\<close>

theorem mfaHandler_short_body_counterexample:
  "length ''123'' < 6
   \<and> mfaHandler exEnv
        \<lparr> Method = ''POST'', Path = ''/mfa'', Body = Some (Reader ''123'' (Some IOFailure)) \<rparr>
        exServer
     = (Responded \<lparr> status = 500, content_type = ''text/plain'', content_length = 26,
                     body = ''Error reading request data'' \<rparr>, exServer)
   \<and> fst (mfaHandler exEnv
        \<lparr> Method = ''POST'', Path = ''/mfa'', Body = Some (Reader ''123'' (Some IOFailure)) \<rparr>
        exServer)
     \<noteq> Responded (writeResponse [] ''Invalid MFA Code'' StatusUnauthorized)"
  by (simp add: mfaHandler_def getMfa_def Let_def newHandlerError_def writeResponse_def)

subsection \<open>Profile selection\<close>

lemma getProfileConfig_fail:
  "Body r = Some (Reader bs err) \<Longrightarrow> err \<noteq> Some IOFailure \<Longrightarrow>
   ResolveConfig e (take 4096 bs) = ResolveError \<Longrightarrow>
   getProfileConfig e (Body r) st =
     (Inl (newHandlerError ''Error resolving profile config'' StatusInternalServerError),
      st\<lparr>profile := take 4096 bs\<rparr>)"
  by (cases err) (auto simp: getProfileConfig_def Let_def intro: ioerr.exhaust)

text \<open>
  C10. On a POST to \<open>/profile\<close> the package's \<open>profile\<close> is set to the body as read (its
  first 4096 bytes, the whole body when it is no longer than that) before the
  configuration is resolved. When the resolver fails the request is answered with status
  500, every other variable is as before and \<open>profile\<close> keeps the name that failed: a GET
  of \<open>/profile\<close> after it returns that name.
\<close>

theorem profileHandler_no_rollback:
  assumes "Method r = MethodPost" and "Body r = Some (Reader bs err)"
    and "err \<noteq> Some IOFailure" and "ResolveConfig e (take 4096 bs) = ResolveError"
    and "Method r' \<noteq> MethodPost"
  shows "profileHandler e r st =
           (Responded (writeResponse [] ''Error resolving profile config''
                         StatusInternalServerError),
            st\<lparr>profile := take 4096 bs\<rparr>)
    \<and> status (writeResponse [] ''Error resolving profile config''
                         StatusInternalServerError) = 500
    \<and> fst (profileHandler e' r' (snd (profileHandler e r st)))
           = Responded (writeResponse [] (take 4096 bs) StatusOK)
    \<and> body (writeResponse [] (take 4096 bs) StatusOK) = take 4096 bs
    \<and> (length bs \<le> 4096 \<longrightarrow> take 4096 bs = bs)"
proof -
  have 1: "profileHandler e r st =
           (Responded (writeResponse [] ''Error resolving profile config''
                         StatusInternalServerError),
            st\<lparr>profile := take 4096 bs\<rparr>)"
    using getProfileConfig_fail [OF assms(2,3,4), of st] assms(1)
    by (simp add: profileHandler_def newHandlerError_def)
  have 2: "fst (profileHandler e' r' (snd (profileHandler e r st)))
           = Responded (writeResponse [] (take 4096 bs) StatusOK)"
    using assms(5) by (simp only: 1 snd_conv) (simp add: profileHandler_def sendProfile_def)
  from 1 2 show ?thesis by (simp add: writeResponse_def)
qed

theorem profileHandler_no_rollback_witness:
  "profileHandler exEnv (exRequest ''POST'' ''/profile'' ''nosuch'') exServer
     = (Responded (writeResponse [] ''Error resolving profile config''
                     StatusInternalServerError),
        exServer\<lparr>profile := ''nosuch''\<rparr>)
   \<and> profile exServer = ''ops''
   \<and> fst (profileHandler exEnv (exRequest ''GET'' ''/profile'' [])
        (snd (profileHandler exEnv (exRequest ''POST'' ''/profile'' ''nosuch'') exServer)))
     = Responded (writeResponse [] ''nosuch'' StatusOK)
   \<and> body (writeResponse [] ''nosuch'' StatusOK) = ''nosuch''"
proof -
  have 1: "Method (exRequest ''POST'' ''/profile'' ''nosuch'') = MethodPost"
    and 2: "Body (exRequest ''POST'' ''/profile'' ''nosuch'') = Some (Reader ''nosuch'' (Some EOF))"
    and 3: "Some EOF \<noteq> Some IOFailure"
    and 4: "ResolveConfig exEnv (take 4096 ''nosuch'') = ResolveError"
    and 5: "Method (exRequest ''GET'' ''/profile'' []) \<noteq> MethodPost"
    by (simp_all add: exRequest_def exEnv_def)
  have 6: "profile exServer = ''ops''" by (simp add: exServer_def)
  from profileHandler_no_rollback [OF 1 2 3 4 5, of exServer exEnv] 6
  show ?thesis by (elim conjE) simp
qed

lemma getProfileConfig_state:
  "getProfileConfig e b st = (x, st1) \<Longrightarrow> \<exists>n. st1 = st\<lparr>profile := n\<rparr>"
  by (auto simp: getProfileConfig_def Let_def split: option.splits prod.splits if_splits
      resolve_result.splits intro: exI [of _ "profile st"])

lemma updateSession_state:
  "updateSession e p st1 = (ur, st2) \<Longrightarrow>
     role st2 = role st1 \<and> cred st2 = cred st1 \<and> cacheDir st2 = cacheDir st1
     \<and> files st2 = files st1 \<and> profile st2 = profile st1"
  by (auto simp: updateSession_def Let_def split: if_splits option.splits)

lemma updateSession_session:
  "updateSession e p st1 = (ur, st2) \<Longrightarrow> ur \<noteq> UpdatePanic \<Longrightarrow>
     sess st2 = Some \<lparr> Profile = p \<rparr>
     \<and> calls st2 = calls st1 @ (if usr st1 = None then [CallGetCallerIdentity p] else [])"
  by (auto simp: updateSession_def Let_def split: if_splits option.splits)

text \<open>The type switch on the error of \<open>cred.Get\<close>, as one condition.\<close>

lemma classify_switch:
  "(case err of
      ErrMfaRequired \<Rightarrow>
        (Responded (writeResponse [] ''MFA code required'' StatusUnauthorized), st4)
    | AwsError c m \<Rightarrow>
        if c = ''AccessDenied'' \<and> HasPrefix m ''MultiFactorAuthentication failed''
        then (Responded (writeResponse [] ''MFA code required'' StatusUnauthorized), st4)
        else (Responded (writeResponse [] ''Error getting session credentials''
                           StatusInternalServerError), st4)
    | OtherError x \<Rightarrow>
        (Responded (writeResponse [] ''Error getting session credentials''
                      StatusInternalServerError), st4))
   = (Responded
        (if err = ErrMfaRequired
            \<or> (\<exists>m. err = AwsError ''AccessDenied'' m
                     \<and> HasPrefix m ''MultiFactorAuthentication failed'')
         then writeResponse [] ''MFA code required'' StatusUnauthorized
         else writeResponse [] ''Error getting session credentials''
                StatusInternalServerError), st4)"
  by (cases err) auto

text \<open>
  A POST that gets past the resolver and does not panic: the credentials are created for
  the resolved configuration and fetched, and the answer depends on \<open>Get\<close> alone.
\<close>

lemma profileHandler_run:
  assumes post: "Method r = MethodPost"
    and cfg: "getProfileConfig e (Body r) st = (Inr (Some p), st1)"
    and upd: "(if (case role st1 of None \<Rightarrow> True
                   | Some ro \<Rightarrow> SourceProfile p \<noteq> SourceProfile ro)
               then updateSession e (SourceProfile p) st1 else (UpdateOk, st1)) = (ur, st2)"
    and ok: "ur \<noteq> UpdatePanic" and sn: "sess st2 = Some sn"
  shows "profileHandler e r st =
     (let cf = cacheFile e st (SourceProfile p);
          pv = \<lparr> Duration = SessionDuration p, SerialNumber = MfaSerial p, TokenCode = [],
                 Cache = (if length cf > 0 then Some cf else None) \<rparr>;
          st3 = st2\<lparr>role := Some p,
                    cred := Some \<lparr> provider = pv, forceRefresh = True, expiration = 0 \<rparr>\<rparr>
      in case Get e st3 of
           (Some err, st4) \<Rightarrow>
             (Responded
                (if err = ErrMfaRequired
                    \<or> (\<exists>m. err = AwsError ''AccessDenied'' m
                             \<and> HasPrefix m ''MultiFactorAuthentication failed'')
                 then writeResponse [] ''MFA code required'' StatusUnauthorized
                 else writeResponse [] ''Error getting session credentials''
                        StatusInternalServerError), st4)
         | (None, st4) \<Rightarrow>
             (Responded (writeResponse [] (LocalString e (ExpiresAt st4)) StatusOK), st4))"
proof -
  from getProfileConfig_state [OF cfg] have cd1: "cacheDir st1 = cacheDir st" by auto
  have cd2: "cacheDir st2 = cacheDir st1"
    using upd updateSession_state [of e "SourceProfile p" st1 ur st2]
    by (auto split: if_splits)
  have cf: "cacheFile e (st2\<lparr>role := Some p\<rparr>) (SourceProfile p)
             = cacheFile e st (SourceProfile p)"
    by (simp add: cacheFile_def cd1 cd2)
  show ?thesis
    unfolding profileHandler_def
    using post ok
    apply (simp only: cfg if_True prod.case sum.case option.case upd)
    apply (cases ur)
      apply (simp_all add: Let_def cf sn NewSessionCredentials_def classify_switch
        split: prod.splits option.splits)
    done
qed

lemma profileHandler_panics:
  assumes post: "Method r = MethodPost"
    and cfg: "getProfileConfig e (Body r) st = (Inr (Some p), st1)"
    and upd: "(if (case role st1 of None \<Rightarrow> True
                   | Some ro \<Rightarrow> SourceProfile p \<noteq> SourceProfile ro)
               then updateSession e (SourceProfile p) st1 else (UpdateOk, st1)) = (ur, st2)"
    and bad: "ur = UpdatePanic \<or> sess st2 = None"
  shows "fst (profileHandler e r st) = Panicked"
  unfolding profileHandler_def
  using post bad
  apply (simp only: cfg if_True prod.case sum.case option.case upd)
  apply (cases ur)
    apply (auto simp: Let_def NewSessionCredentials_def)
  done

lemma Get_fresh:
  "cred st3 = Some c \<Longrightarrow> forceRefresh c \<Longrightarrow>
   Get e st3 =
     (case Retrieve e (provider c) of
        Inl err \<Rightarrow> (Some err, st3\<lparr>calls := calls st3 @ [CallRetrieve (provider c)]\<rparr>)
      | Inr ex \<Rightarrow>
          (None,
           st3\<lparr>calls := calls st3 @ [CallRetrieve (provider c)],
                cred := Some (c\<lparr>forceRefresh := False, expiration := ex\<rparr>),
                files := (case Cache (provider c) of
                            None \<Rightarrow> files st3
                          | Some f \<Rightarrow> insert f (files st3))\<rparr>))"
  by (simp add: Get_def Let_def split: sum.splits option.splits)

text \<open>Two runs of the example installation.\<close>

lemma exServer_ops_again:
  "profileHandler exEnv (exRequest ''POST'' ''/profile'' ''ops'') (exServer\<lparr>cacheDir := []\<rparr>)
     = (Responded (writeResponse [] ''MFA code required'' StatusUnauthorized),
        exServer\<lparr>cacheDir := [],
                 cred := Some \<lparr> provider = \<lparr> Duration = 3600 * Second,
                                              SerialNumber = ''arn:aws:iam::1:mfa/alice'',
                                              TokenCode = [], Cache = None \<rparr>,
                                 forceRefresh = True, expiration = 0 \<rparr>,
                 calls := [CallRetrieve \<lparr> Duration = 3600 * Second,
                                          SerialNumber = ''arn:aws:iam::1:mfa/alice'',
                                          TokenCode = [], Cache = None \<rparr>]\<rparr>)"
  by (simp add: profileHandler_def getProfileConfig_def exRequest_def exServer_def exOps_def
      cacheFile_def NewSessionCredentials_def Get_def exEnv_def)

lemma exServer_ops_throttled:
  "fst (profileHandler (exEnv\<lparr>Retrieve := \<lambda>pv. Inl (AwsError ''Throttling'' ''Rate exceeded'')\<rparr>)
          (exRequest ''POST'' ''/profile'' ''ops'') (exServer\<lparr>cacheDir := []\<rparr>))
     = Responded (writeResponse [] ''Error getting session credentials''
                    StatusInternalServerError)"
  by (simp add: profileHandler_def getProfileConfig_def exRequest_def exServer_def exOps_def
      cacheFile_def NewSessionCredentials_def Get_def exEnv_def)

text \<open>
  C6. When a POST to \<open>/profile\<close> has resolved its configuration and the fetch of the
  session credentials fails with an error, the answer is status 401 with the body
  \<open>MFA code required\<close> exactly when the error is the MFA-required signal or an AWS error
  with the code \<open>AccessDenied\<close> whose message starts with
  \<open>MultiFactorAuthentication failed\<close>; for every other error it is status 500 with the body
  \<open>Error getting session credentials\<close>. The body is one of these two fixed texts, so
  nothing of the error's own text is in it.
\<close>

theorem profileHandler_cred_error:
  assumes post: "Method r = MethodPost"
    and cfg: "getProfileConfig e (Body r) st = (Inr (Some p), st1)"
    and resp: "fst (profileHandler e r st) = Responded resp"
    and fail: "Retrieve e
                 \<lparr> Duration = SessionDuration p, SerialNumber = MfaSerial p, TokenCode = [],
                   Cache = (if length (cacheFile e st (SourceProfile p)) > 0
                            then Some (cacheFile e st (SourceProfile p)) else None) \<rparr>
               = Inl err"
  shows "resp =
           (if err = ErrMfaRequired
               \<or> (\<exists>m. err = AwsError ''AccessDenied'' m
                        \<and> HasPrefix m ''MultiFactorAuthentication failed'')
            then writeResponse [] ''MFA code required'' StatusUnauthorized
            else writeResponse [] ''Error getting session credentials''
                   StatusInternalServerError)
     \<and> (status resp = 401 \<and> body resp = ''MFA code required'') =
         (err = ErrMfaRequired
          \<or> (\<exists>m. err = AwsError ''AccessDenied'' m
                   \<and> HasPrefix m ''MultiFactorAuthentication failed''))
     \<and> (status resp = 500 \<and> body resp = ''Error getting session credentials'') =
         (\<not> (err = ErrMfaRequired
          \<or> (\<exists>m. err = AwsError ''AccessDenied'' m
                   \<and> HasPrefix m ''MultiFactorAuthentication failed'')))"
proof -
  obtain ur st2 where upd:
    "(if (case role st1 of None \<Rightarrow> True
          | Some ro \<Rightarrow> SourceProfile p \<noteq> SourceProfile ro)
      then updateSession e (SourceProfile p) st1 else (UpdateOk, st1)) = (ur, st2)"
    by (meson surj_pair)
  from profileHandler_panics [OF post cfg upd] resp
  have ok: "ur \<noteq> UpdatePanic" and "sess st2 \<noteq> None" by auto
  then obtain sn where sn: "sess st2 = Some sn" by auto
  have "resp =
           (if err = ErrMfaRequired
               \<or> (\<exists>m. err = AwsError ''AccessDenied'' m
                        \<and> HasPrefix m ''MultiFactorAuthentication failed'')
            then writeResponse [] ''MFA code required'' StatusUnauthorized
            else writeResponse [] ''Error getting session credentials''
                   StatusInternalServerError)"
    using resp fail unfolding profileHandler_run [OF post cfg upd ok sn]
    by (simp add: Let_def Get_fresh)
  then show ?thesis by (simp add: writeResponse_def)
qed

theorem profileHandler_cred_error_witness:
  "fst (profileHandler exEnv (exRequest ''POST'' ''/profile'' ''ops'') (exServer\<lparr>cacheDir := []\<rparr>))
     = Responded (writeResponse [] ''MFA code required'' StatusUnauthorized)
   \<and> status (writeResponse [] ''MFA code required'' StatusUnauthorized) = 401
   \<and> fst (profileHandler (exEnv\<lparr>Retrieve := \<lambda>pv. Inl (AwsError ''Throttling'' ''Rate exceeded'')\<rparr>)
          (exRequest ''POST'' ''/profile'' ''ops'') (exServer\<lparr>cacheDir := []\<rparr>))
     = Responded (writeResponse [] ''Error getting session credentials''
                    StatusInternalServerError)
   \<and> status (writeResponse [] ''Error getting session credentials''
                StatusInternalServerError) = 500"
proof -
  let ?r = "exRequest ''POST'' ''/profile'' ''ops''"
  let ?st = "exServer\<lparr>cacheDir := []\<rparr>"
  let ?e = "exEnv\<lparr>Retrieve := \<lambda>pv. Inl (AwsError ''Throttling'' ''Rate exceeded'')\<rparr>"
  have post: "Method ?r = MethodPost" by (simp add: exRequest_def)
  have cfg: "getProfileConfig exEnv (Body ?r) ?st = (Inr (Some exOps), ?st\<lparr>profile := ''ops''\<rparr>)"
    by (simp add: getProfileConfig_def exRequest_def exEnv_def)
  have cfg': "getProfileConfig ?e (Body ?r) ?st = (Inr (Some exOps), ?st\<lparr>profile := ''ops''\<rparr>)"
    by (simp add: getProfileConfig_def exRequest_def exEnv_def)
  have run: "fst (profileHandler exEnv ?r ?st)
               = Responded (writeResponse [] ''MFA code required'' StatusUnauthorized)"
    by (simp add: exServer_ops_again)
  note run' = exServer_ops_throttled
  have fail: "Retrieve exEnv
                 \<lparr> Duration = SessionDuration exOps, SerialNumber = MfaSerial exOps, TokenCode = [],
                   Cache = (if length (cacheFile exEnv ?st (SourceProfile exOps)) > 0
                            then Some (cacheFile exEnv ?st (SourceProfile exOps)) else None) \<rparr>
               = Inl ErrMfaRequired"
    by (simp add: exEnv_def exOps_def)
  have fail': "Retrieve ?e
                 \<lparr> Duration = SessionDuration exOps, SerialNumber = MfaSerial exOps, TokenCode = [],
                   Cache = (if length (cacheFile ?e ?st (SourceProfile exOps)) > 0
                            then Some (cacheFile ?e ?st (SourceProfile exOps)) else None) \<rparr>
               = Inl (AwsError ''Throttling'' ''Rate exceeded'')"
    by simp
  from profileHandler_cred_error [OF post cfg run fail]
    profileHandler_cred_error [OF post cfg' run' fail']
  show ?thesis using run run' by (elim conjE) simp
qed

text \<open>
  \<open>Retrieve\<close> is used by \<open>Get\<close> alone, and a provider with a valid cache file does not
  consult the identity provider.
\<close>

lemma updateSession_Retrieve:
  "updateSession (e\<lparr>Retrieve := R\<rparr>) x s = updateSession e x s"
  by (simp add: updateSession_def Let_def)

lemma getProfileConfig_Retrieve:
  "getProfileConfig (e\<lparr>Retrieve := R\<rparr>) b s = getProfileConfig e b s"
  by (simp add: getProfileConfig_def Let_def split: option.splits prod.splits)

lemma cacheFile_Retrieve:
  "cacheFile (e\<lparr>Retrieve := R\<rparr>) s x = cacheFile e s x"
  by (simp add: cacheFile_def)

lemma cachingRetrieve_miss:
  "\<not> cacheHit fs expiry now pv \<Longrightarrow> cachingRetrieve fs expiry now sts pv = sts pv"
  by (auto simp: cacheHit_def cachingRetrieve_def split: option.splits)

text \<open>What a POST that is answered does, by the outcome of \<open>Retrieve\<close>.\<close>

lemma profileHandler_answer:
  assumes post: "Method r = MethodPost"
    and cfg: "getProfileConfig e (Body r) st = (Inr (Some p), st1)"
    and upd: "(if (case role st1 of None \<Rightarrow> True
                   | Some ro \<Rightarrow> SourceProfile p \<noteq> SourceProfile ro)
               then updateSession e (SourceProfile p) st1 else (UpdateOk, st1)) = (ur, st2)"
    and ok: "ur \<noteq> UpdatePanic" and sn: "sess st2 = Some sn"
    and pv: "pv = \<lparr> Duration = SessionDuration p, SerialNumber = MfaSerial p, TokenCode = [],
                     Cache = (if length (cacheFile e st (SourceProfile p)) > 0
                              then Some (cacheFile e st (SourceProfile p)) else None) \<rparr>"
    and st3: "st3 = st2\<lparr>role := Some p,
                    cred := Some \<lparr> provider = pv, forceRefresh = True, expiration = 0 \<rparr>,
                    calls := calls st2 @ [CallRetrieve pv]\<rparr>"
  shows "profileHandler e r st =
     (case Retrieve e pv of
        Inl err \<Rightarrow>
          (Responded
             (if err = ErrMfaRequired
                 \<or> (\<exists>m. err = AwsError ''AccessDenied'' m
                          \<and> HasPrefix m ''MultiFactorAuthentication failed'')
              then writeResponse [] ''MFA code required'' StatusUnauthorized
              else writeResponse [] ''Error getting session credentials''
                     StatusInternalServerError), st3)
      | Inr ex \<Rightarrow>
          (Responded (writeResponse [] (LocalString e ex) StatusOK),
           st3\<lparr>cred := Some \<lparr> provider = pv, forceRefresh = False, expiration = ex \<rparr>,
               files := (case Cache pv of
                           None \<Rightarrow> files st2
                         | Some f \<Rightarrow> insert f (files st2))\<rparr>))"
  unfolding profileHandler_run [OF post cfg upd ok sn] pv st3
  by (simp add: Let_def Get_fresh ExpiresAt_def split: sum.splits)

text \<open>Runs of the example installation with the caching provider.\<close>

lemma exCaching_hit:
  "profileHandler (exCachingEnv (files exServer)) (exRequest ''POST'' ''/profile'' ''ops'') exServer
     = (Responded (writeResponse [] (LocalString exEnv (1700003600 * Second)) StatusOK),
        exServer\<lparr>cred := Some \<lparr> provider = \<lparr> Duration = 3600 * Second,
                                              SerialNumber = ''arn:aws:iam::1:mfa/alice'',
                                              TokenCode = [],
                                              Cache = Some ''/cache/.aws_session_token_base'' \<rparr>,
                                 forceRefresh = False, expiration = 1700003600 * Second \<rparr>,
                 calls := [CallRetrieve \<lparr> Duration = 3600 * Second,
                                          SerialNumber = ''arn:aws:iam::1:mfa/alice'',
                                          TokenCode = [],
                                          Cache = Some ''/cache/.aws_session_token_base'' \<rparr>]\<rparr>)"
  by (simp add: profileHandler_def getProfileConfig_def exRequest_def exServer_def exOps_def
      cacheFile_def NewSessionCredentials_def Get_def exEnv_def exCachingEnv_def
      cachingRetrieve_def ExpiresAt_def Let_def)

lemma exCaching_first:
  "profileHandler (exCachingEnv {}) (exRequest ''POST'' ''/profile'' ''dev'')
       (exServer\<lparr>role := None, usr := None, files := {}\<rparr>)
     = (Responded (writeResponse [] (LocalString exEnv (1700003600 * Second)) StatusOK),
        exServer\<lparr>profile := ''dev'', role := Some exDev, usr := Some \<lparr> UserName = ''alice'' \<rparr>,
                 cred := Some \<lparr> provider = \<lparr> Duration = 3600 * Second,
                                              SerialNumber = [],
                                              TokenCode = [],
                                              Cache = Some ''/cache/.aws_session_token_base'' \<rparr>,
                                 forceRefresh = False, expiration = 1700003600 * Second \<rparr>,
                 calls := [CallGetCallerIdentity ''base'',
                           CallRetrieve \<lparr> Duration = 3600 * Second,
                                          SerialNumber = [],
                                          TokenCode = [],
                                          Cache = Some ''/cache/.aws_session_token_base'' \<rparr>]\<rparr>)"
  by (simp add: profileHandler_def getProfileConfig_def exRequest_def exServer_def exDev_def
      cacheFile_def NewSessionCredentials_def Get_def exEnv_def exCachingEnv_def
      cachingRetrieve_def ExpiresAt_def updateSession_def Let_def)

lemma exCaching_disabled:
  "profileHandler (exCachingEnv (files exServer))
       (exRequest ''POST'' ''/profile'' ''ops'') (exServer\<lparr>cacheDir := []\<rparr>)
     = (Responded (writeResponse [] ''MFA code required'' StatusUnauthorized),
        exServer\<lparr>cacheDir := [],
                 cred := Some \<lparr> provider = \<lparr> Duration = 3600 * Second,
                                              SerialNumber = ''arn:aws:iam::1:mfa/alice'',
                                              TokenCode = [], Cache = None \<rparr>,
                                 forceRefresh = True, expiration = 0 \<rparr>,
                 calls := [CallRetrieve \<lparr> Duration = 3600 * Second,
                                          SerialNumber = ''arn:aws:iam::1:mfa/alice'',
                                          TokenCode = [], Cache = None \<rparr>]\<rparr>)"
  by (simp add: profileHandler_def getProfileConfig_def exRequest_def exServer_def exOps_def
      cacheFile_def NewSessionCredentials_def Get_def exEnv_def exCachingEnv_def
      cachingRetrieve_def ExpiresAt_def Let_def)

lemma exCaching_absent:
  "profileHandler (exCachingEnv {}) (exRequest ''POST'' ''/profile'' ''ops'')
       (exServer\<lparr>files := {}\<rparr>)
     = (Responded (writeResponse [] ''MFA code required'' StatusUnauthorized),
        exServer\<lparr>files := {},
                 cred := Some \<lparr> provider = \<lparr> Duration = 3600 * Second,
                                              SerialNumber = ''arn:aws:iam::1:mfa/alice'',
                                              TokenCode = [],
                                              Cache = Some ''/cache/.aws_session_token_base'' \<rparr>,
                                 forceRefresh = True, expiration = 0 \<rparr>,
                 calls := [CallRetrieve \<lparr> Duration = 3600 * Second,
                                          SerialNumber = ''arn:aws:iam::1:mfa/alice'',
                                          TokenCode = [],
                                          Cache = Some ''/cache/.aws_session_token_base'' \<rparr>]\<rparr>)"
  by (simp add: profileHandler_def getProfileConfig_def exRequest_def exServer_def exOps_def
      cacheFile_def NewSessionCredentials_def Get_def exEnv_def exCachingEnv_def
      cachingRetrieve_def ExpiresAt_def Let_def)

text \<open>
  C8, as amended. Take a POST to \<open>/profile\<close> that has resolved its configuration and is
  answered, that is, the handler does not panic (it panics when the SDK session cannot be
  built or is missing), with the session-token provider of the spec, whose \<open>Retrieve\<close>
  is \<open>cachingRetrieve\<close>.

  If the source profile of the resolved configuration equals the one of the active
  configuration, the SDK session and the caller's identity are kept. If it differs, or no
  configuration is active, session re-establishment is forced: a new SDK session is built
  for the new source profile, with an identity lookup if the caller is not known yet.

  In both cases the handler calls \<open>Retrieve\<close> once, on a provider \<open>pv\<close> it has just created
  for the resolved configuration, without a token code, and with the cache file of the
  source profile if there is a cache directory. If that file exists and its credential
  has not expired, no session-token request is made: the run is the same whatever the
  identity provider would have answered (\<open>sts'\<close> is arbitrary), and the answer is status 200
  with the expiration of the cached credential. Otherwise, so whenever there is no cache
  file, the outcome of \<open>Retrieve\<close> is the outcome of the session-token request and decides
  the answer, also when the source profile has not changed.
\<close>

theorem profileHandler_session:
  assumes post: "Method r = MethodPost"
    and cfg: "getProfileConfig e (Body r) st = (Inr (Some p), st1)"
    and resp: "fst (profileHandler e r st) = Responded resp"
    and ret: "Retrieve e = cachingRetrieve (files st) expiry now sts"
    and pv: "pv = \<lparr> Duration = SessionDuration p, SerialNumber = MfaSerial p, TokenCode = [],
                     Cache = (if length (cacheFile e st (SourceProfile p)) > 0
                              then Some (cacheFile e st (SourceProfile p)) else None) \<rparr>"
  shows "(if (case role st of None \<Rightarrow> True | Some ro \<Rightarrow> SourceProfile p \<noteq> SourceProfile ro)
          then sess (snd (profileHandler e r st)) = Some \<lparr> Profile = SourceProfile p \<rparr>
               \<and> calls (snd (profileHandler e r st))
                   = calls st
                     @ (if usr st = None then [CallGetCallerIdentity (SourceProfile p)] else [])
                     @ [CallRetrieve pv]
          else sess (snd (profileHandler e r st)) = sess st
               \<and> usr (snd (profileHandler e r st)) = usr st
               \<and> calls (snd (profileHandler e r st)) = calls st @ [CallRetrieve pv])
     \<and> (cacheHit (files st) expiry now pv \<longrightarrow>
          profileHandler (e\<lparr>Retrieve := cachingRetrieve (files st) expiry now sts'\<rparr>) r st
            = profileHandler e r st
          \<and> resp = writeResponse []
                     (LocalString e (expiry (cacheFile e st (SourceProfile p)))) StatusOK)
     \<and> (\<not> cacheHit (files st) expiry now pv \<longrightarrow>
          Retrieve e pv = sts pv
          \<and> resp =
              (case sts pv of
                 Inl err \<Rightarrow>
                   (if err = ErrMfaRequired
                       \<or> (\<exists>m. err = AwsError ''AccessDenied'' m
                                \<and> HasPrefix m ''MultiFactorAuthentication failed'')
                    then writeResponse [] ''MFA code required'' StatusUnauthorized
                    else writeResponse [] ''Error getting session credentials''
                           StatusInternalServerError)
               | Inr ex \<Rightarrow> writeResponse [] (LocalString e ex) StatusOK))"
proof -
  let ?e' = "e\<lparr>Retrieve := cachingRetrieve (files st) expiry now sts'\<rparr>"
  obtain ur st2 where upd:
    "(if (case role st1 of None \<Rightarrow> True
          | Some ro \<Rightarrow> SourceProfile p \<noteq> SourceProfile ro)
      then updateSession e (SourceProfile p) st1 else (UpdateOk, st1)) = (ur, st2)"
    by (meson surj_pair)
  from profileHandler_panics [OF post cfg upd] resp
  have ok: "ur \<noteq> UpdatePanic" and "sess st2 \<noteq> None" by auto
  then obtain sn where sn: "sess st2 = Some sn" by auto
  from getProfileConfig_state [OF cfg] obtain n where st1: "st1 = st\<lparr>profile := n\<rparr>" by blast
  define st3 where "st3 = st2\<lparr>role := Some p,
                    cred := Some \<lparr> provider = pv, forceRefresh = True, expiration = 0 \<rparr>,
                    calls := calls st2 @ [CallRetrieve pv]\<rparr>"
  note run = profileHandler_answer [OF post cfg upd ok sn pv st3_def]
  have cfg': "getProfileConfig ?e' (Body r) st = (Inr (Some p), st1)"
    using cfg by (simp only: getProfileConfig_Retrieve)
  have upd': "(if (case role st1 of None \<Rightarrow> True
          | Some ro \<Rightarrow> SourceProfile p \<noteq> SourceProfile ro)
      then updateSession ?e' (SourceProfile p) st1 else (UpdateOk, st1)) = (ur, st2)"
    using upd by (simp only: updateSession_Retrieve)
  have pv': "pv = \<lparr> Duration = SessionDuration p, SerialNumber = MfaSerial p, TokenCode = [],
                     Cache = (if length (cacheFile ?e' st (SourceProfile p)) > 0
                              then Some (cacheFile ?e' st (SourceProfile p)) else None) \<rparr>"
    using pv by (simp only: cacheFile_Retrieve)
  note run' = profileHandler_answer [OF post cfg' upd' ok sn pv' st3_def]
  have A: "sess (snd (profileHandler e r st)) = sess st2
      \<and> usr (snd (profileHandler e r st)) = usr st2
      \<and> calls (snd (profileHandler e r st)) = calls st2 @ [CallRetrieve pv]"
    unfolding run by (simp add: st3_def split: sum.splits)
  have 1: "(if (case role st of None \<Rightarrow> True | Some ro \<Rightarrow> SourceProfile p \<noteq> SourceProfile ro)
          then sess (snd (profileHandler e r st)) = Some \<lparr> Profile = SourceProfile p \<rparr>
               \<and> calls (snd (profileHandler e r st))
                   = calls st
                     @ (if usr st = None then [CallGetCallerIdentity (SourceProfile p)] else [])
                     @ [CallRetrieve pv]
          else sess (snd (profileHandler e r st)) = sess st
               \<and> usr (snd (profileHandler e r st)) = usr st
               \<and> calls (snd (profileHandler e r st)) = calls st @ [CallRetrieve pv])"
  proof (cases "case role st of None \<Rightarrow> True | Some ro \<Rightarrow> SourceProfile p \<noteq> SourceProfile ro")
    case True
    with upd st1 have "updateSession e (SourceProfile p) st1 = (ur, st2)" by simp
    from updateSession_session [OF this ok] st1 A True show ?thesis by simp
  next
    case False
    with upd st1 have "st2 = st1" by simp
    with st1 A False show ?thesis by simp
  qed
  have 2: "profileHandler ?e' r st = profileHandler e r st
          \<and> resp = writeResponse []
                     (LocalString e (expiry (cacheFile e st (SourceProfile p)))) StatusOK"
    if hit: "cacheHit (files st) expiry now pv"
  proof -
    from hit obtain f where f: "Cache pv = Some f" and fv: "f \<in> files st \<and> now < expiry f"
      by (auto simp: cacheHit_def split: option.splits)
    have v: "cachingRetrieve (files st) expiry now s pv = Inr (expiry f)" for s
      by (simp add: cachingRetrieve_def f fv)
    from f pv have ff: "f = cacheFile e st (SourceProfile p)" by (simp split: if_splits)
    have "profileHandler ?e' r st = profileHandler e r st"
      unfolding run run' by (simp add: ret v)
    moreover have "resp = writeResponse [] (LocalString e (expiry f)) StatusOK"
      using resp unfolding run by (simp add: ret v)
    ultimately show ?thesis by (simp add: ff)
  qed
  have 3: "Retrieve e pv = sts pv
          \<and> resp =
              (case sts pv of
                 Inl err \<Rightarrow>
                   (if err = ErrMfaRequired
                       \<or> (\<exists>m. err = AwsError ''AccessDenied'' m
                                \<and> HasPrefix m ''MultiFactorAuthentication failed'')
                    then writeResponse [] ''MFA code required'' StatusUnauthorized
                    else writeResponse [] ''Error getting session credentials''
                           StatusInternalServerError)
               | Inr ex \<Rightarrow> writeResponse [] (LocalString e ex) StatusOK)"
    if miss: "\<not> cacheHit (files st) expiry now pv"
  proof -
    have r: "Retrieve e pv = sts pv" by (simp add: ret cachingRetrieve_miss [OF miss])
    show ?thesis using resp unfolding run by (cases "sts pv") (auto simp: r)
  qed
  from 1 2 3 show ?thesis by blast
qed

theorem profileHandler_session_witness:
  "sess (snd (profileHandler (exCachingEnv (files exServer))
                 (exRequest ''POST'' ''/profile'' ''ops'') exServer)) = sess exServer
   \<and> usr (snd (profileHandler (exCachingEnv (files exServer))
                 (exRequest ''POST'' ''/profile'' ''ops'') exServer)) = usr exServer
   \<and> profileHandler
        ((exCachingEnv (files exServer))
           \<lparr>Retrieve := cachingRetrieve (files exServer) (\<lambda>f. 1700003600 * Second)
                          (1700000000 * Second + 500) (\<lambda>pv. Inl (OtherError ''no answer''))\<rparr>)
        (exRequest ''POST'' ''/profile'' ''ops'') exServer
       = profileHandler (exCachingEnv (files exServer))
           (exRequest ''POST'' ''/profile'' ''ops'') exServer
   \<and> fst (profileHandler (exCachingEnv (files exServer))
            (exRequest ''POST'' ''/profile'' ''ops'') exServer)
       = Responded (writeResponse [] (LocalString exEnv (1700003600 * Second)) StatusOK)
   \<and> sess (snd (profileHandler (exCachingEnv {}) (exRequest ''POST'' ''/profile'' ''dev'')
                 (exServer\<lparr>role := None, usr := None, files := {}\<rparr>)))
       = Some \<lparr> Profile = ''base'' \<rparr>
   \<and> calls (snd (profileHandler (exCachingEnv {}) (exRequest ''POST'' ''/profile'' ''dev'')
                 (exServer\<lparr>role := None, usr := None, files := {}\<rparr>)))
       = [CallGetCallerIdentity ''base'',
          CallRetrieve \<lparr> Duration = 3600 * Second, SerialNumber = [], TokenCode = [],
                         Cache = Some ''/cache/.aws_session_token_base'' \<rparr>]"
proof -
  let ?e = "exCachingEnv (files exServer)"
  let ?r = "exRequest ''POST'' ''/profile'' ''ops''"
  let ?e' = "exCachingEnv {}"
  let ?r' = "exRequest ''POST'' ''/profile'' ''dev''"
  let ?st' = "exServer\<lparr>role := None, usr := None, files := {}\<rparr>"
  let ?pv = "\<lparr> Duration = SessionDuration exOps, SerialNumber = MfaSerial exOps, TokenCode = [],
                Cache = (if length (cacheFile ?e exServer (SourceProfile exOps)) > 0
                         then Some (cacheFile ?e exServer (SourceProfile exOps)) else None) \<rparr>"
  have post: "Method ?r = MethodPost" and post': "Method ?r' = MethodPost"
    by (simp_all add: exRequest_def)
  have cfg: "getProfileConfig ?e (Body ?r) exServer
               = (Inr (Some exOps), exServer\<lparr>profile := ''ops''\<rparr>)"
    by (simp add: getProfileConfig_def exRequest_def exEnv_def exCachingEnv_def)
  have cfg': "getProfileConfig ?e' (Body ?r') ?st' = (Inr (Some exDev), ?st'\<lparr>profile := ''dev''\<rparr>)"
    by (simp add: getProfileConfig_def exRequest_def exEnv_def exCachingEnv_def)
  have run: "fst (profileHandler ?e ?r exServer)
               = Responded (writeResponse [] (LocalString exEnv (1700003600 * Second)) StatusOK)"
    by (simp add: exCaching_hit)
  have run': "fst (profileHandler ?e' ?r' ?st')
               = Responded (writeResponse [] (LocalString exEnv (1700003600 * Second)) StatusOK)"
    by (simp add: exCaching_first)
  have ret: "Retrieve ?e = cachingRetrieve (files exServer) (\<lambda>f. 1700003600 * Second)
                             (1700000000 * Second + 500) (Retrieve exEnv)"
    by (simp add: exCachingEnv_def)
  have ret': "Retrieve ?e' = cachingRetrieve (files ?st') (\<lambda>f. 1700003600 * Second)
                             (1700000000 * Second + 500) (Retrieve exEnv)"
    by (simp add: exCachingEnv_def)
  have same: "\<not> (case role exServer of None \<Rightarrow> True
                 | Some ro \<Rightarrow> SourceProfile exOps \<noteq> SourceProfile ro)"
    by (simp add: exServer_def)
  have none: "(case role ?st' of None \<Rightarrow> True
                 | Some ro \<Rightarrow> SourceProfile exDev \<noteq> SourceProfile ro)"
    by simp
  have hit: "cacheHit (files exServer) (\<lambda>f. 1700003600 * Second) (1700000000 * Second + 500) ?pv"
    by (simp add: cacheHit_def cacheFile_def exServer_def exOps_def exEnv_def exCachingEnv_def)
  note a = profileHandler_session [OF post cfg run ret refl,
      of "\<lambda>pv. Inl (OtherError ''no answer'')"]
  note b = profileHandler_session [OF post' cfg' run' ret' refl]
  from a have a1: "sess (snd (profileHandler ?e ?r exServer)) = sess exServer"
    and a2: "usr (snd (profileHandler ?e ?r exServer)) = usr exServer"
    using same by simp_all
  from a hit have a3: "profileHandler
        (?e\<lparr>Retrieve := cachingRetrieve (files exServer) (\<lambda>f. 1700003600 * Second)
                          (1700000000 * Second + 500) (\<lambda>pv. Inl (OtherError ''no answer''))\<rparr>)
        ?r exServer = profileHandler ?e ?r exServer"
    by blast
  from b none have b1: "sess (snd (profileHandler ?e' ?r' ?st')) = Some \<lparr> Profile = SourceProfile exDev \<rparr>"
    by simp
  have b2: "calls (snd (profileHandler ?e' ?r' ?st'))
       = [CallGetCallerIdentity ''base'',
          CallRetrieve \<lparr> Duration = 3600 * Second, SerialNumber = [], TokenCode = [],
                         Cache = Some ''/cache/.aws_session_token_base'' \<rparr>]"
    unfolding exCaching_first by (simp add: exServer_def)
  from a1 a2 a3 run b1 b2 show ?thesis by (simp add: exDev_def)
qed

text \<open>
  C8, as stated, fails. In the example the profile \<open>ops\<close> is active with a session
  credential in memory that was obtained with an MFA code and has not expired, and there
  is no cache directory (\<open>cacheFile\<close> then returns the empty string, and the handler
  attaches no cache to the provider). Selecting \<open>ops\<close> again resolves to the same source
  profile; the handler nevertheless replaces the credential in memory, the new provider
  has no cache to answer from, so its \<open>Retrieve\<close> is the session-token request, which the
  identity provider refuses for want of an MFA code, and the answer is 401. The same
  happens with a cache directory when the cache file does not exist.
\<close>

theorem profileHandler_session_counterexample:
  "role (exServer\<lparr>cacheDir := []\<rparr>) = Some exOps
   \<and> ResolveConfig (exCachingEnv (files exServer)) ''ops''
       = Resolved (Some exOps)
   \<and> cred (exServer\<lparr>cacheDir := []\<rparr>) = Some exCred
   \<and> forceRefresh exCred = False
   \<and> 1700000000 * Second + 500 < expiration exCred
   \<and> profileHandler (exCachingEnv (files exServer))
        (exRequest ''POST'' ''/profile'' ''ops'') (exServer\<lparr>cacheDir := []\<rparr>)
     = (Responded (writeResponse [] ''MFA code required'' StatusUnauthorized),
        exServer\<lparr>cacheDir := [],
                 cred := Some \<lparr> provider = \<lparr> Duration = 3600 * Second,
                                              SerialNumber = ''arn:aws:iam::1:mfa/alice'',
                                              TokenCode = [], Cache = None \<rparr>,
                                 forceRefresh = True, expiration = 0 \<rparr>,
                 calls := [CallRetrieve \<lparr> Duration = 3600 * Second,
                                          SerialNumber = ''arn:aws:iam::1:mfa/alice'',
                                          TokenCode = [], Cache = None \<rparr>]\<rparr>)
   \<and> \<not> cacheHit (files exServer) (\<lambda>f. 1700003600 * Second)
          (1700000000 * Second + 500)
          \<lparr> Duration = 3600 * Second, SerialNumber = ''arn:aws:iam::1:mfa/alice'',
            TokenCode = [], Cache = None \<rparr>
   \<and> Retrieve (exCachingEnv (files exServer))
        \<lparr> Duration = 3600 * Second, SerialNumber = ''arn:aws:iam::1:mfa/alice'',
          TokenCode = [], Cache = None \<rparr>
       = Retrieve exEnv
           \<lparr> Duration = 3600 * Second, SerialNumber = ''arn:aws:iam::1:mfa/alice'',
             TokenCode = [], Cache = None \<rparr>
   \<and> fst (profileHandler (exCachingEnv {}) (exRequest ''POST'' ''/profile'' ''ops'')
            (exServer\<lparr>files := {}\<rparr>))
       = Responded (writeResponse [] ''MFA code required'' StatusUnauthorized)"
  by (simp add: exCaching_disabled exCaching_absent)
     (simp add: exServer_def exEnv_def exCred_def exCachingEnv_def cacheHit_def
        cachingRetrieve_def)

subsection \<open>Role credentials\<close>

lemma second_floor: "(t::int) < (t + Second) div Second * Second"
proof -
  have "(t + Second) div Second * Second + (t + Second) mod Second = t + Second"
    by (rule div_mult_mod_eq)
  moreover have "(t + Second) mod Second < Second"
    by (rule pos_mod_bound) simp
  ultimately show ?thesis by linarith
qed

lemma assumeRole_ok:
  "assumeRole e st = (AssumeOk j, st') \<Longrightarrow>
     \<exists>ro v ex. role st = Some ro \<and> AssumeRoleGet e (RoleArn ro) = Inr (v, ex)
        \<and> j = Marshal e (assumeRoleOutput e v)"
  by (auto simp: assumeRole_def Let_def split: option.splits sum.splits prod.splits)

lemma credHandler_json:
  assumes "fst (credHandler e r st) = Responded resp"
    and "content_type resp = ''application/json''"
  shows "\<exists>j st'. assumeRole e st = (AssumeOk j, st') \<and> body resp = j \<and> status resp = 200"
proof -
  obtain ar st' where ar: "assumeRole e st = (ar, st')" by (meson surj_pair)
  show ?thesis
  proof (cases ar)
    case AssumePanic
    with assms ar show ?thesis
      by (auto simp: credHandler_def Let_def sendProfile_def writeResponse_def split: if_splits)
  next
    case (AssumeError x)
    with assms ar show ?thesis
      by (auto simp: credHandler_def Let_def sendProfile_def writeResponse_def split: if_splits)
  next
    case (AssumeOk j)
    with assms ar show ?thesis
      by (auto simp: credHandler_def Let_def sendProfile_def writeResponse_def split: if_splits)
  qed
qed

lemma exAssume:
  "assumeRole exEnv exServer
     = (AssumeOk ''{\"Code\":\"Success\",\"Expiration\":\"2023-11-14T22:28:21Z\"}'',
        exServer\<lparr>calls := [CallAssumeRole ''arn:aws:iam::1:role/ops'' [] ''alice''
                                 (3600 * Second)]\<rparr>)"
  by code_simp

lemma exCredHandler:
  "fst (credHandler exEnv
          (exRequest ''GET'' ''/latest/meta-data/iam/security-credentials/ops'' []) exServer)
     = Responded (writeResponse ''application/json''
         ''{\"Code\":\"Success\",\"Expiration\":\"2023-11-14T22:28:21Z\"}'' StatusOK)"
  by code_simp

lemma exExpiration:
  "Format_RFC3339 (Now exEnv 1 + AssumeRoleMinDuration exEnv + 1 * Second)
     = ''2023-11-14T22:28:21Z''"
  by code_simp

text \<open>
  C1. Whenever \<open>assumeRole\<close> succeeds, the JSON it returns is the marshalled output object
  whose \<open>Expiration\<close> is the RFC 3339 text of the instant \<open>now + AssumeRoleMinDuration + 1
  second\<close>, where \<open>now\<close> is the clock reading taken for that field; the credential-fetch
  handler sends this JSON as the body. The expiration that the identity provider gave the
  credentials has no influence: changing it changes nothing in the result. The instant
  is strictly later than \<open>now + AssumeRoleMinDuration\<close>, and so is the whole second that
  the text names.
\<close>

theorem assumeRole_expiration:
  "(assumeRole e st = (AssumeOk j, st') \<longrightarrow>
      (\<exists>v. j = Marshal e (assumeRoleOutput e v)
         \<and> Expiration (assumeRoleOutput e v)
             = Format_RFC3339 (Now e 1 + AssumeRoleMinDuration e + 1 * Second)))
   \<and> (fst (credHandler e r st) = Responded resp \<and> content_type resp = ''application/json''
        \<longrightarrow> (\<exists>v. body resp = Marshal e (assumeRoleOutput e v)
                \<and> Expiration (assumeRoleOutput e v)
                    = Format_RFC3339 (Now e 1 + AssumeRoleMinDuration e + 1 * Second)))
   \<and> assumeRole (e\<lparr>AssumeRoleGet := \<lambda>arn. Inr (v, ex1)\<rparr>) st
       = assumeRole (e\<lparr>AssumeRoleGet := \<lambda>arn. Inr (v, ex2)\<rparr>) st
   \<and> Now e 1 + AssumeRoleMinDuration e < Now e 1 + AssumeRoleMinDuration e + 1 * Second
   \<and> Now e 1 + AssumeRoleMinDuration e
       < unixSeconds (Now e 1 + AssumeRoleMinDuration e + 1 * Second) * Second"
proof -
  have 1: "\<exists>v. j = Marshal e (assumeRoleOutput e v)
         \<and> Expiration (assumeRoleOutput e v)
             = Format_RFC3339 (Now e 1 + AssumeRoleMinDuration e + 1 * Second)"
    if "assumeRole e st = (AssumeOk j, st')" for j st'
    using assumeRole_ok [OF that] by (auto simp: assumeRoleOutput_def)
  have 2: "\<exists>v. body resp = Marshal e (assumeRoleOutput e v)
                \<and> Expiration (assumeRoleOutput e v)
                    = Format_RFC3339 (Now e 1 + AssumeRoleMinDuration e + 1 * Second)"
    if "fst (credHandler e r st) = Responded resp" "content_type resp = ''application/json''"
    using credHandler_json [OF that] 1 by auto
  have 3: "assumeRole (e\<lparr>AssumeRoleGet := \<lambda>arn. Inr (v, ex1)\<rparr>) st
       = assumeRole (e\<lparr>AssumeRoleGet := \<lambda>arn. Inr (v, ex2)\<rparr>) st"
    by (simp add: assumeRole_def assumeRoleOutput_def Let_def split: option.splits)
  have 4: "Now e 1 + AssumeRoleMinDuration e
       < unixSeconds (Now e 1 + AssumeRoleMinDuration e + 1 * Second) * Second"
    using second_floor [of "Now e 1 + AssumeRoleMinDuration e"]
    by (simp add: unixSeconds_def)
  from 1 2 3 4 show ?thesis by simp
qed

theorem assumeRole_expiration_witness:
  "(\<exists>v. fst (assumeRole exEnv exServer) = AssumeOk (Marshal exEnv (assumeRoleOutput exEnv v))
       \<and> Expiration (assumeRoleOutput exEnv v) = ''2023-11-14T22:28:21Z'')
   \<and> fst (assumeRole exEnv exServer)
       = AssumeOk ''{\"Code\":\"Success\",\"Expiration\":\"2023-11-14T22:28:21Z\"}''
   \<and> (\<exists>v. body (writeResponse ''application/json''
                  ''{\"Code\":\"Success\",\"Expiration\":\"2023-11-14T22:28:21Z\"}'' StatusOK)
             = Marshal exEnv (assumeRoleOutput exEnv v)
          \<and> Expiration (assumeRoleOutput exEnv v) = ''2023-11-14T22:28:21Z'')"
proof -
  let ?j = "''{\"Code\":\"Success\",\"Expiration\":\"2023-11-14T22:28:21Z\"}''"
  let ?st' = "exServer\<lparr>calls := [CallAssumeRole ''arn:aws:iam::1:role/ops'' [] ''alice''
                                     (3600 * Second)]\<rparr>"
  let ?r = "exRequest ''GET'' ''/latest/meta-data/iam/security-credentials/ops'' []"
  let ?resp = "writeResponse ''application/json'' ?j StatusOK"
  have ct: "content_type ?resp = ''application/json''" by (simp add: writeResponse_def)
  note t = assumeRole_expiration [of exEnv exServer ?j ?st' ?r ?resp]
  from t have "assumeRole exEnv exServer = (AssumeOk ?j, ?st') \<longrightarrow>
      (\<exists>v. ?j = Marshal exEnv (assumeRoleOutput exEnv v)
         \<and> Expiration (assumeRoleOutput exEnv v)
             = Format_RFC3339 (Now exEnv 1 + AssumeRoleMinDuration exEnv + 1 * Second))"
    by (rule conjunct1)
  from this exAssume
  have a: "\<exists>v. ?j = Marshal exEnv (assumeRoleOutput exEnv v)
         \<and> Expiration (assumeRoleOutput exEnv v)
             = Format_RFC3339 (Now exEnv 1 + AssumeRoleMinDuration exEnv + 1 * Second)"
    by (rule mp)
  from t have "fst (credHandler exEnv ?r exServer) = Responded ?resp
        \<and> content_type ?resp = ''application/json''
        \<longrightarrow> (\<exists>v. body ?resp = Marshal exEnv (assumeRoleOutput exEnv v)
                \<and> Expiration (assumeRoleOutput exEnv v)
                    = Format_RFC3339 (Now exEnv 1 + AssumeRoleMinDuration exEnv + 1 * Second))"
    by (rule conjunct2 [THEN conjunct1])
  from this conjI [OF exCredHandler ct]
  have b: "\<exists>v. body ?resp = Marshal exEnv (assumeRoleOutput exEnv v)
                \<and> Expiration (assumeRoleOutput exEnv v)
                    = Format_RFC3339 (Now exEnv 1 + AssumeRoleMinDuration exEnv + 1 * Second)"
    by (rule mp)
  have c: "fst (assumeRole exEnv exServer) = AssumeOk ?j"
    by (simp only: exAssume fst_conv)
  from a b c show ?thesis
    unfolding exExpiration by (simp only: simp_thms assume_result.inject)
qed

section \<open>Properties of the role discovery engine\<close>

subsection \<open>Role sets\<close>

lemma Dedup_set: "set (Dedup rs) = set rs"
  by (simp add: Dedup_def)

lemma exDedup:
  "Dedup [''mock3'', ''mock2'', ''mock1'', ''mock2'', ''mock4'', ''mock1'']
     = [''mock1'', ''mock2'', ''mock3'', ''mock4'']"
  by code_simp

text \<open>
  C2. For every list of role references, \<open>Dedup\<close> returns the elements of the list, each
  once, in ascending lexical order; there is no error to return. The list of the example
  gives \<open>mock1\<close> to \<open>mock4\<close>, and the empty (or nil) list gives the empty set.
\<close>

theorem Dedup_sorted_distinct:
  "sorted (Dedup rs) \<and> distinct (Dedup rs) \<and> set (Dedup rs) = set rs
   \<and> Dedup [''mock3'', ''mock2'', ''mock1'', ''mock2'', ''mock4'', ''mock1'']
       = [''mock1'', ''mock2'', ''mock3'', ''mock4'']
   \<and> Dedup [] = []"
  using exDedup by (simp add: Dedup_def)

subsection \<open>Policy documents\<close>

lemma strings_set: "x \<in> set (strings xs) \<longleftrightarrow> JString x \<in> set xs"
  by (induction xs rule: strings.induct) auto

lemma collect_set: "set (collect acc stmts) = set acc \<union> (\<Union>s \<in> set stmts. set (contribution s))"
  by (induction stmts arbitrary: acc) auto

lemma findRoles_set:
  "x \<in> set (findRoles r) \<longleftrightarrow> (r = JString x \<or> (\<exists>xs. r = JArray xs \<and> JString x \<in> set xs))"
  by (cases r) (auto simp: findRoles_def strings_set)

lemma isAssumeRole_iff:
  "isAssumeRole a \<longleftrightarrow>
     (a = JString ''sts:AssumeRole'' \<or> (\<exists>xs. a = JArray xs \<and> JString ''sts:AssumeRole'' \<in> set xs))"
  by (cases a) (auto simp: isAssumeRole_def)

lemma contribution_set:
  "x \<in> set (contribution stmt) \<longleftrightarrow>
     (\<exists>ms a r. stmt = JObject ms
        \<and> getField ms ''Effect'' = Some (JString ''Allow'')
        \<and> getField ms ''Action'' = Some a
        \<and> (a = JString ''sts:AssumeRole''
            \<or> (\<exists>xs. a = JArray xs \<and> JString ''sts:AssumeRole'' \<in> set xs))
        \<and> getField ms ''Resource'' = Some r
        \<and> (r = JString x \<or> (\<exists>xs. r = JArray xs \<and> JString x \<in> set xs)))"
proof (cases stmt)
  case (JObject ms)
  show ?thesis
  proof (cases "getField ms ''Action''")
    case None
    then show ?thesis by (simp add: JObject contribution_def cong: if_cong)
  next
    case act: (Some a)
    show ?thesis
    proof (cases "getField ms ''Resource''")
      case None
      with act show ?thesis by (simp add: JObject contribution_def cong: if_cong)
    next
      case (Some r)
      with act show ?thesis
        by (simp add: JObject contribution_def findRoles_set isAssumeRole_iff cong: if_cong)
    qed
  qed
qed (simp_all add: contribution_def)

lemma exGood:
  "parsePolicy (Some ''{\"Statement\": [{\"Effect\": \"None\"}, {\"Effect\": \"Deny\", \"Action\": \"sts:AssumeRole\"}, \<newline>                             {\"Effect\": \"Allow\", \"Action\": [\"sts:AssumeRole\", \"s3:*\"], \"Resource\": \"a\"},\<newline>                             {\"Effect\": \"Allow\", \"Action\": \"sts:AssumeRole\", \"Resource\": \"x\"},\<newline>                             {\"Effect\": \"Allow\", \"Action\": \"sts:AssumeRole\", \"Resource\": [\"y\", \"z\"]}\<newline>                            ]}'')
   = Inr [''a'', ''x'', ''y'', ''z'']"
  by code_simp

lemma exOdd:
  "decode ''string-only'' = None"
  "parsePolicy (Some ''string-only'') = Inr []"
  "decode [] = None"
  "parsePolicy (Some []) = Inr []"
  "parsePolicy (Some ''{\"Statement\": [\"a\", \"b\", \"c\"]}'') = Inr []"
  "parsePolicy (Some ''{\"Statement\": [{}, {\"b\": 1}]}'') = Inr []"
  "decode ''{\"Statement\": ['' = None"
  "parsePolicy (Some ''{\"Statement\": ['') = Inl ParseError"
  "decode ''string'' = None"
  "parsePolicy (Some ''string'') = Inl ParseError"
  by code_simp+

lemma exEscapes:
  "decode (''[\"'' @ CHR 0x5C # ''u0041'' @ CHR 0x5C # ''u00e9'' @ CHR 0x5C # ''u20AC\", \"''
             @ CHR 0x5C # ''ud83d'' @ CHR 0x5C # ''ude00\", \"'' @ CHR 0x5C # ''ud83d\", \"a''
             @ CHR 0x5C # ''n'' @ CHR 0x5C # ''/\"]'')
     = Some (JArray [JString [CHR 0x41, CHR 0xC3, CHR 0xA9, CHR 0xE2, CHR 0x82, CHR 0xAC],
                     JString [CHR 0xF0, CHR 0x9F, CHR 0x98, CHR 0x80],
                     JString [CHR 0xEF, CHR 0xBF, CHR 0xBD],
                     JString [CHR ''a'', CHR 0x0A, CHR ''/'']])"
  "decode (''[\"'' @ CHR 0x5C # ''u12\"]'') = None"
  "decode (''[\"'' @ CHR 0x5C # ''x\"]'') = None"
  "decode [CHR 0x22, CHR 0xC3, CHR 0xA9, CHR 0xFF, CHR 0xE2, CHR 0x82, CHR 0x22]
     = Some (JString [CHR 0xC3, CHR 0xA9, CHR 0xEF, CHR 0xBF, CHR 0xBD,
                      CHR 0xEF, CHR 0xBF, CHR 0xBD, CHR 0xEF, CHR 0xBF, CHR 0xBD])"
  "parsePolicy (Some (''{\"Statement\": [{\"Effect\": \"'' @ CHR 0x5C # ''u0041llow\", \"Action\": \"sts:''
             @ CHR 0x5C # ''u0041ssumeRole\", \"Resource\": \"'' @ CHR 0x5C # ''u0072\"}]}''))
     = Inr [''r'']"
  by code_simp+

text \<open>
  C3. The roles of a policy document are exactly the contributions of its statements,
  deduplicated and sorted. A value \<open>x\<close> is in the contribution of a statement if and only
  if the statement is an object whose \<open>Effect\<close> is \<open>"Allow"\<close>, whose \<open>Action\<close> is the string
  \<open>"sts:AssumeRole"\<close> or an array with that string among its elements, and whose \<open>Resource\<close>
  is the string \<open>x\<close> or an array with the string \<open>x\<close> among its elements; so a statement
  with the effect \<open>"Deny"\<close> or \<open>"None"\<close> contributes nothing. The document of the repository's
  test gives \<open>a\<close>, \<open>x\<close>, \<open>y\<close>, \<open>z\<close>.
\<close>

theorem documentRoles_contribution:
  "set (documentRoles doc) = (\<Union>stmt \<in> set (statements doc). set (contribution stmt))
   \<and> sorted (documentRoles doc) \<and> distinct (documentRoles doc)
   \<and> (x \<in> set (contribution stmt) \<longleftrightarrow>
        (\<exists>ms a r. stmt = JObject ms
           \<and> getField ms ''Effect'' = Some (JString ''Allow'')
           \<and> getField ms ''Action'' = Some a
           \<and> (a = JString ''sts:AssumeRole''
               \<or> (\<exists>xs. a = JArray xs \<and> JString ''sts:AssumeRole'' \<in> set xs))
           \<and> getField ms ''Resource'' = Some r
           \<and> (r = JString x \<or> (\<exists>xs. r = JArray xs \<and> JString x \<in> set xs))))
   \<and> contribution (JObject [(''Effect'', JString ''Deny''),
                             (''Action'', JString ''sts:AssumeRole''),
                             (''Resource'', JString ''r'')]) = []
   \<and> contribution (JObject [(''Effect'', JString ''None'')]) = []
   \<and> parsePolicy (Some text)
       = (case decode text of
            Some d \<Rightarrow> Inr (documentRoles d)
          | None \<Rightarrow>
              (if text = [] \<or> text = ''string-only'' then Inr [] else Inl ParseError))
   \<and> parsePolicy (Some ''{\"Statement\": [{\"Effect\": \"None\"}, {\"Effect\": \"Deny\", \"Action\": \"sts:AssumeRole\"}, \<newline>                             {\"Effect\": \"Allow\", \"Action\": [\"sts:AssumeRole\", \"s3:*\"], \"Resource\": \"a\"},\<newline>                             {\"Effect\": \"Allow\", \"Action\": \"sts:AssumeRole\", \"Resource\": \"x\"},\<newline>                             {\"Effect\": \"Allow\", \"Action\": \"sts:AssumeRole\", \"Resource\": [\"y\", \"z\"]}\<newline>                            ]}'')
       = Inr [''a'', ''x'', ''y'', ''z'']"
proof -
  have 1: "set (documentRoles doc) = (\<Union>stmt \<in> set (statements doc). set (contribution stmt))"
    by (simp add: documentRoles_def Dedup_set collect_set)
  have 2: "sorted (documentRoles doc) \<and> distinct (documentRoles doc)"
    by (simp add: documentRoles_def Dedup_def)
  have 3: "contribution (JObject [(''Effect'', JString ''Deny''),
                             (''Action'', JString ''sts:AssumeRole''),
                             (''Resource'', JString ''r'')]) = []"
    and 4: "contribution (JObject [(''Effect'', JString ''None'')]) = []"
    by (simp_all add: contribution_def getField_def)
  have 5: "parsePolicy (Some text)
       = (case decode text of
            Some d \<Rightarrow> Inr (documentRoles d)
          | None \<Rightarrow>
              (if text = [] \<or> text = ''string-only'' then Inr [] else Inl ParseError))"
    using exOdd(3) by (simp add: parsePolicy_def split: option.splits)
  from 1 2 3 4 5 contribution_set [of x stmt] exGood show ?thesis
    by (simp only: simp_thms)
qed



end
